theory Spec2Isabelle
  imports Main
begin

section \<open>Data model\<close>

text \<open>
  Instants (Go's \<open>time.Time\<close>) are integers counting nanoseconds from Go's zero
  instant, so \<open>IsZero\<close> is equality with 0 and a \<open>time.Duration\<close> is a difference.
\<close>

type_synonym time = int

definition IsZero :: "time \<Rightarrow> bool" where
  "IsZero t = (t = 0)"

definition Hour :: int where
  "Hour = 3600000000000"

text \<open>\<open>domain.AuditLog\<close> (internal/domain/audit\_log.go); the association
  pointers \<open>Tenant\<close> and \<open>User\<close> are never set by the code modelled here.\<close>

record AuditLog =
  ID :: string
  TenantID :: string
  UserID :: string
  SessionID :: string
  IPAddress :: string
  UserAgent :: string
  Action :: string
  ResourceType :: string
  ResourceID :: string
  Message :: string
  Severity :: string
  BeforeState :: string
  AfterState :: string
  Metadata :: string
  Timestamp :: time
  CreatedAt :: time
  UpdatedAt :: time

text \<open>\<open>domain.AuditLogFilter\<close>.\<close>

record AuditLogFilter =
  f_TenantID :: string
  f_UserID :: string
  f_SessionID :: string
  f_IPAddress :: string
  f_UserAgent :: string
  f_Action :: string
  f_ResourceType :: string
  f_ResourceID :: string
  f_Message :: string
  f_Severity :: string
  f_StartTime :: time
  f_EndTime :: time
  f_Page :: int
  f_PageSize :: int
  f_Limit :: int
  f_Offset :: int

text \<open>\<open>dto.CreateAuditLogRequest\<close> after JSON decoding: a field absent from the body
  holds Go's zero value (the empty string, the zero instant).\<close>

record CreateAuditLogRequest =
  r_TenantID :: string
  r_UserID :: string
  r_SessionID :: string
  r_IPAddress :: string
  r_UserAgent :: string
  r_Action :: string
  r_ResourceType :: string
  r_ResourceID :: string
  r_Severity :: string
  r_Message :: string
  r_BeforeState :: string
  r_AfterState :: string
  r_Metadata :: string
  r_Timestamp :: time

text \<open>\<open>dto.AuditLogResponse\<close>: the fields \<open>FromAuditLog\<close> copies.\<close>

record AuditLogResponse =
  o_ID :: string
  o_TenantID :: string
  o_UserID :: string
  o_SessionID :: string
  o_IPAddress :: string
  o_UserAgent :: string
  o_Action :: string
  o_ResourceType :: string
  o_ResourceID :: string
  o_Severity :: string
  o_Message :: string
  o_BeforeState :: string
  o_AfterState :: string
  o_Metadata :: string
  o_Timestamp :: time

text \<open>Errors of the code paths modelled; \<open>Wrap\<close> is \<open>fmt.Errorf("...: %w", err)\<close>.\<close>

datatype error =
    ErrNoClaimsInContext
  | ErrNoTenantIDInClaims
  | ErrInvalidTenantIDType
  | ErrRecordNotFound
  | ErrDuplicateKey
  | ErrUnavailable
  | Errorf string
  | Wrap string error

subsection \<open>internal/api/dto/mapper.go\<close>

definition ToAuditLog :: "CreateAuditLogRequest \<Rightarrow> AuditLog" where
  "ToAuditLog r =
     \<lparr> ID = [], TenantID = r_TenantID r, UserID = r_UserID r, SessionID = r_SessionID r,
       IPAddress = r_IPAddress r, UserAgent = r_UserAgent r, Action = r_Action r,
       ResourceType = r_ResourceType r, ResourceID = r_ResourceID r,
       Message = r_Message r, Severity = r_Severity r, BeforeState = r_BeforeState r,
       AfterState = r_AfterState r, Metadata = r_Metadata r, Timestamp = r_Timestamp r,
       CreatedAt = 0, UpdatedAt = 0 \<rparr>"

definition FromAuditLog :: "AuditLog \<Rightarrow> AuditLogResponse" where
  "FromAuditLog l =
     \<lparr> o_ID = ID l, o_TenantID = TenantID l, o_UserID = UserID l,
       o_SessionID = SessionID l, o_IPAddress = IPAddress l, o_UserAgent = UserAgent l,
       o_Action = Action l, o_ResourceType = ResourceType l, o_ResourceID = ResourceID l,
       o_Severity = Severity l, o_Message = Message l, o_BeforeState = BeforeState l,
       o_AfterState = AfterState l, o_Metadata = Metadata l, o_Timestamp = Timestamp l \<rparr>"

definition FromAuditLogs :: "AuditLog list \<Rightarrow> AuditLogResponse list" where
  "FromAuditLogs logs = map FromAuditLog logs"

subsection \<open>Request context (internal/utils)\<close>

text \<open>A JWT claim value is a string or something else; the context carries the claims
  map under \<open>ClaimsKey\<close> when the authentication middleware has stored it.\<close>

datatype claim = StringClaim string | OtherClaim

type_synonym MapClaims = "string \<rightharpoonup> claim"

record Context =
  ClaimsKey :: "MapClaims option"

definition GetTenantIDFromContext :: "Context \<Rightarrow> error + string" where
  "GetTenantIDFromContext c =
     (case ClaimsKey c of
        None \<Rightarrow> Inl ErrNoClaimsInContext
      | Some claims \<Rightarrow>
          (case claims ''tenant_id'' of
             None \<Rightarrow> Inl ErrNoTenantIDInClaims
           | Some (StringClaim tenantIDStr) \<Rightarrow> Inr tenantIDStr
           | Some OtherClaim \<Rightarrow> Inl ErrInvalidTenantIDType))"

section \<open>External collaborators\<close>

subsection \<open>Queue messages (internal/service/queue/sqs.go)\<close>

datatype MessageType = INDEX | BULK_INDEX | ARCHIVE | CLEANUP | UnknownType string

record Message =
  m_Type :: MessageType
  m_TenantID :: string
  m_Logs :: "AuditLog list"
  m_Timestamp :: time
  m_BeforeDate :: time

record ReceivedMessage =
  rm_Message :: Message
  ReceiptHandle :: nat

datatype queue = IndexQueue | ArchiveQueue | CleanupQueue

text \<open>The JSON document \<open>archiveLogsToS3\<close> uploads.\<close>

record ArchiveData =
  a_tenant_id :: string
  a_before_date :: time
  a_archived_at :: time
  a_log_count :: nat
  a_logs :: "AuditLog list"

subsection \<open>Calls made to the outside, and the world they act on\<close>

text \<open>
  Every call the code makes to the primary store, the search index, the broker, the
  object store and Redis is recorded, in order, with whether it succeeded. Whether a call
  succeeds is not decided by the code: it is read from the environment.
\<close>

datatype call =
    DbCreate "AuditLog list"
  | DbSelect
  | DbDelete string time
  | OsCreateIndex string
  | OsIndex string "AuditLog list"
  | OsSearch string
  | SqsSend queue Message
  | SqsReceive queue
  | SqsDelete queue nat
  | S3Put string ArchiveData
  | RedisPublish string AuditLogResponse

record env =
  now :: time
  uuid_New :: "nat \<Rightarrow> string"
  Format_date :: "time \<Rightarrow> string"
  Format_datetime :: "time \<Rightarrow> string"
  text_match :: "string \<Rightarrow> string \<Rightarrow> bool"
  writer_up :: bool
  reader_up :: bool
  search_up :: bool
  SendMessage_ok :: "queue \<Rightarrow> Message \<Rightarrow> bool"
  ReceiveMessage_ok :: "queue \<Rightarrow> bool"
  DeleteMessage_ok :: "queue \<Rightarrow> nat \<Rightarrow> bool"
  PutObject_ok :: "string \<Rightarrow> bool"
  Publish_ok :: "AuditLogResponse \<Rightarrow> bool"

record world =
  rows :: "AuditLog list"
  documents :: "(string \<times> AuditLog) list"
  objects :: "(string \<times> ArchiveData) list"
  index_queue :: "ReceivedMessage list"
  archive_queue :: "ReceivedMessage list"
  cleanup_queue :: "ReceivedMessage list"
  published :: "(string \<times> AuditLogResponse) list"
  uuids :: nat
  handles :: nat
  trace :: "(call \<times> bool) list"

definition record_call :: "call \<Rightarrow> bool \<Rightarrow> world \<Rightarrow> world" where
  "record_call c ok w = w\<lparr>trace := trace w @ [(c, ok)]\<rparr>"

definition calls :: "world \<Rightarrow> call list" where
  "calls w = map fst (trace w)"

section \<open>Primary store (PostgreSQL through GORM)\<close>

text \<open>
  \<open>gorm.DB.Create\<close> on \<open>domain.AuditLog\<close>: a zero field whose tag carries a
  default is filled before the row is written (\<open>default:'INFO'\<close> for the severity,
  the current instant for the three timestamps); the insert fails when the writer is
  down or the primary key \<open>(id, timestamp)\<close> of the migration is already present.
\<close>

definition apply_defaults :: "env \<Rightarrow> AuditLog \<Rightarrow> AuditLog" where
  "apply_defaults e l =
     l\<lparr> Severity := (if Severity l = [] then ''INFO'' else Severity l),
        Timestamp := (if IsZero (Timestamp l) then now e else Timestamp l),
        CreatedAt := (if IsZero (CreatedAt l) then now e else CreatedAt l),
        UpdatedAt := (if IsZero (UpdatedAt l) then now e else UpdatedAt l) \<rparr>"

definition pk :: "AuditLog \<Rightarrow> string \<times> time" where
  "pk l = (ID l, Timestamp l)"

definition insert_ok :: "env \<Rightarrow> AuditLog list \<Rightarrow> AuditLog list \<Rightarrow> bool" where
  "insert_ok e table new =
     (writer_up e \<and> distinct (map pk new) \<and> (\<forall>l \<in> set new. pk l \<notin> pk ` set table))"

definition gorm_Create :: "env \<Rightarrow> AuditLog list \<Rightarrow> world \<Rightarrow> error option \<times> AuditLog list \<times> world" where
  "gorm_Create e logs w =
     (let new = map (apply_defaults e) logs in
      if insert_ok e (rows w) new
      then (None, new, record_call (DbCreate new) True (w\<lparr>rows := rows w @ new\<rparr>))
      else (Some (if writer_up e then ErrDuplicateKey else ErrUnavailable), new,
            record_call (DbCreate new) False w))"

subsection \<open>AuditLogRepository (internal/repository/postgres)\<close>

definition fresh_id :: "env \<Rightarrow> world \<Rightarrow> string \<times> world" where
  "fresh_id e w = (uuid_New e (uuids w), w\<lparr>uuids := Suc (uuids w)\<rparr>)"

definition repo_Create :: "env \<Rightarrow> Context \<Rightarrow> AuditLog \<Rightarrow> world \<Rightarrow> error option \<times> AuditLog \<times> world" where
  "repo_Create e ctx l w =
     (let (l1, w1) = (if ID l = [] then (let (i, w') = fresh_id e w in (l\<lparr>ID := i\<rparr>, w'))
                      else (l, w));
          (err, new, w2) = gorm_Create e [l1] w1
      in (err, hd new, w2))"

text \<open>The loop of \<open>BulkCreate\<close>: an id for each log without one, and the tenant of
  the context on every log.\<close>

fun assign_ids :: "env \<Rightarrow> string \<Rightarrow> AuditLog list \<Rightarrow> world \<Rightarrow> AuditLog list \<times> world" where
  "assign_ids e tenantID [] w = ([], w)"
| "assign_ids e tenantID (l # ls) w =
     (let (l1, w1) = (if ID l = [] then (let (i, w') = fresh_id e w in (l\<lparr>ID := i\<rparr>, w'))
                      else (l, w));
          l2 = l1\<lparr>TenantID := tenantID\<rparr>;
          (rest, w2) = assign_ids e tenantID ls w1
      in (l2 # rest, w2))"

definition repo_BulkCreate :: "env \<Rightarrow> Context \<Rightarrow> AuditLog list \<Rightarrow> world \<Rightarrow> error option \<times> AuditLog list \<times> world" where
  "repo_BulkCreate e ctx logs w =
     (case GetTenantIDFromContext ctx of
        Inl err \<Rightarrow> (Some err, logs, w)
      | Inr tenantID \<Rightarrow>
          (let (logs1, w1) = assign_ids e tenantID logs w
           in gorm_Create e logs1 w1))"

text \<open>\<open>getTenantScope\<close>: the rows a scoped statement ranges over.\<close>

definition getTenantScope :: "AuditLog list \<Rightarrow> Context \<Rightarrow> error + AuditLog list" where
  "getTenantScope table ctx =
     (case GetTenantIDFromContext ctx of
        Inl err \<Rightarrow> Inl err
      | Inr tenantID \<Rightarrow> Inr (filter (\<lambda>l. TenantID l = tenantID) table))"

text \<open>\<open>First(&log, "id = ?", id)\<close>: the first matching row, or
  \<open>gorm.ErrRecordNotFound\<close>.\<close>

definition gorm_First :: "AuditLog list \<Rightarrow> (AuditLog \<Rightarrow> bool) \<Rightarrow> error + AuditLog" where
  "gorm_First table cond =
     (case filter cond table of [] \<Rightarrow> Inl ErrRecordNotFound | l # _ \<Rightarrow> Inr l)"

definition repo_GetByID :: "env \<Rightarrow> Context \<Rightarrow> string \<Rightarrow> world \<Rightarrow> (error + AuditLog) \<times> world" where
  "repo_GetByID e ctx i w =
     (case getTenantScope (rows w) ctx of
        Inl err \<Rightarrow> (Inl err, w)
      | Inr db \<Rightarrow>
          if reader_up e
          then (case gorm_First db (\<lambda>l. ID l = i) of
                  Inl err \<Rightarrow> (Inl err, record_call DbSelect False w)
                | Inr l \<Rightarrow> (Inr l, record_call DbSelect True w))
          else (Inl ErrUnavailable, record_call DbSelect False w))"

text \<open>The \<open>Where\<close> clauses \<open>List\<close> adds: the tenant always, each other predicate
  only when the filter field is set.\<close>

definition list_where :: "AuditLogFilter \<Rightarrow> AuditLog \<Rightarrow> bool" where
  "list_where f l =
     (TenantID l = f_TenantID f
      \<and> (if f_UserID f \<noteq> [] then UserID l = f_UserID f else True)
      \<and> (if f_Action f \<noteq> [] then Action l = f_Action f else True)
      \<and> (if f_ResourceType f \<noteq> [] then ResourceType l = f_ResourceType f else True)
      \<and> (if f_ResourceID f \<noteq> [] then ResourceID l = f_ResourceID f else True)
      \<and> (if f_Severity f \<noteq> [] then Severity l = f_Severity f else True)
      \<and> (if \<not> IsZero (f_StartTime f) then f_StartTime f \<le> Timestamp l else True)
      \<and> (if \<not> IsZero (f_EndTime f) then Timestamp l \<le> f_EndTime f else True))"

text \<open>\<open>ORDER BY timestamp DESC\<close>, then \<open>OFFSET\<close> and \<open>LIMIT\<close> when positive.\<close>

definition order_desc :: "AuditLog list \<Rightarrow> AuditLog list" where
  "order_desc xs = rev (sort_key Timestamp xs)"

definition paginate :: "AuditLogFilter \<Rightarrow> AuditLog list \<Rightarrow> AuditLog list" where
  "paginate f xs =
     (let ys = (if f_Offset f > 0 then drop (nat (f_Offset f)) xs else xs)
      in if f_Limit f > 0 then take (nat (f_Limit f)) ys else ys)"

definition select_List :: "AuditLog list \<Rightarrow> AuditLogFilter \<Rightarrow> AuditLog list" where
  "select_List table f = paginate f (order_desc (filter (list_where f) table))"

definition repo_List :: "env \<Rightarrow> Context \<Rightarrow> AuditLogFilter \<Rightarrow> world \<Rightarrow> (error + AuditLog list) \<times> world" where
  "repo_List e ctx f w =
     (if f_TenantID f = [] then (Inl (Errorf ''tenant_id is required''), w)
      else if reader_up e
      then (Inr (select_List (rows w) f), record_call DbSelect True w)
      else (Inl ErrUnavailable, record_call DbSelect False w))"

text \<open>\<open>DeleteBeforeDate\<close>: \<open>tenant_id = ? AND timestamp < ?\<close>.\<close>

definition delete_where :: "string \<Rightarrow> time \<Rightarrow> AuditLog \<Rightarrow> bool" where
  "delete_where tenantID beforeDate l = (TenantID l = tenantID \<and> Timestamp l < beforeDate)"

definition repo_DeleteBeforeDate :: "env \<Rightarrow> string \<Rightarrow> time \<Rightarrow> world \<Rightarrow> (error + int) \<times> world" where
  "repo_DeleteBeforeDate e tenantID beforeDate w =
     (if writer_up e
      then (Inr (int (length (filter (delete_where tenantID beforeDate) (rows w)))),
            record_call (DbDelete tenantID beforeDate) True
              (w\<lparr>rows := filter (\<lambda>l. \<not> delete_where tenantID beforeDate l) (rows w)\<rparr>))
      else (Inl ErrUnavailable, record_call (DbDelete tenantID beforeDate) False w))"

subsection \<open>Statistics\<close>

text \<open>
  The continuous aggregate \<open>audit_logs_hourly_stats\<close> of the migration: one row for
  each \<open>(time_bucket('1 hour', timestamp), tenant_id, action, severity, resource_type)\<close>
  present in \<open>audit_logs\<close>, with the number of logs of that group. The view is taken
  here as fully refreshed.
\<close>

definition time_bucket :: "time \<Rightarrow> time" where
  "time_bucket t = (t div Hour) * Hour"

record stat_row =
  bucket :: time
  s_tenant_id :: string
  s_action :: string
  s_severity :: string
  s_resource_type :: string
  s_count :: int

definition stat_of :: "AuditLog \<Rightarrow> time \<times> string \<times> string \<times> string \<times> string" where
  "stat_of l = (time_bucket (Timestamp l), TenantID l, Action l, Severity l, ResourceType l)"

definition mk_stat_row :: "AuditLog list \<Rightarrow> time \<times> string \<times> string \<times> string \<times> string \<Rightarrow> stat_row" where
  "mk_stat_row table k =
     (case k of (b, t, a, s, r) \<Rightarrow>
        \<lparr> bucket = b, s_tenant_id = t, s_action = a, s_severity = s, s_resource_type = r,
          s_count = int (length (filter (\<lambda>l. stat_of l = k) table)) \<rparr>)"

definition audit_logs_hourly_stats :: "AuditLog list \<Rightarrow> stat_row list" where
  "audit_logs_hourly_stats table = map (mk_stat_row table) (remdups (map stat_of table))"

record AuditLogStats =
  TotalLogs :: int
  ActionCounts :: "string \<rightharpoonup> int"
  SeverityCounts :: "string \<rightharpoonup> int"
  ResourceCounts :: "string \<rightharpoonup> int"

text \<open>A row of \<open>countResult\<close>: category, key, count.\<close>

type_synonym countResult = "string \<times> string \<times> int"

text \<open>\<open>SELECT category, key, SUM(count) ... GROUP BY category, key\<close>.\<close>

definition group_sum :: "countResult list \<Rightarrow> countResult list" where
  "group_sum xs =
     map (\<lambda>ck. (fst ck, snd ck,
                 sum_list (map (\<lambda>x. snd (snd x)) (filter (\<lambda>x. (fst x, fst (snd x)) = ck) xs))))
         (remdups (map (\<lambda>x. (fst x, fst (snd x))) xs))"

text \<open>\<open>SELECT c AS category, col AS key, COUNT(*) ... GROUP BY col\<close>.\<close>

definition group_count :: "string \<Rightarrow> (AuditLog \<Rightarrow> string) \<Rightarrow> AuditLog list \<Rightarrow> countResult list" where
  "group_count c col xs =
     map (\<lambda>k. (c, k, int (length (filter (\<lambda>l. col l = k) xs)))) (remdups (map col xs))"

definition in_bucket_range :: "AuditLogFilter \<Rightarrow> stat_row \<Rightarrow> bool" where
  "in_bucket_range f r =
     (s_tenant_id r = f_TenantID f \<and> f_StartTime f \<le> bucket r \<and> bucket r < f_EndTime f)"

definition in_time_range :: "AuditLogFilter \<Rightarrow> AuditLog \<Rightarrow> bool" where
  "in_time_range f l =
     (TenantID l = f_TenantID f \<and> f_StartTime f \<le> Timestamp l \<and> Timestamp l < f_EndTime f)"

definition hourly_query :: "AuditLog list \<Rightarrow> AuditLogFilter \<Rightarrow> countResult list" where
  "hourly_query table f =
     (let hs = filter (in_bucket_range f) (audit_logs_hourly_stats table)
      in group_sum
           (map (\<lambda>r. (''action'', s_action r, s_count r)) hs
            @ map (\<lambda>r. (''severity'', s_severity r, s_count r)) hs
            @ map (\<lambda>r. (''resource_type'', s_resource_type r, s_count r))
                (filter (\<lambda>r. s_resource_type r \<noteq> []) hs)))"

definition base_query :: "AuditLog list \<Rightarrow> AuditLogFilter \<Rightarrow> countResult list" where
  "base_query table f =
     (let time_filtered_logs = filter (in_time_range f) table
      in group_count ''severity'' Severity time_filtered_logs
         @ group_count ''action'' Action time_filtered_logs
         @ group_count ''resource_type'' ResourceType
             (filter (\<lambda>l. ResourceType l \<noteq> []) time_filtered_logs))"

text \<open>The loop that files each result row under its category.\<close>

fun process_results :: "countResult list \<Rightarrow> AuditLogStats \<Rightarrow> AuditLogStats" where
  "process_results [] stats = stats"
| "process_results ((category, key, cnt) # rs) stats =
     process_results rs
       (if category = ''severity'' then stats\<lparr>SeverityCounts := (SeverityCounts stats)(key \<mapsto> cnt)\<rparr>
        else if category = ''action'' then stats\<lparr>ActionCounts := (ActionCounts stats)(key \<mapsto> cnt)\<rparr>
        else if category = ''resource_type'' then stats\<lparr>ResourceCounts := (ResourceCounts stats)(key \<mapsto> cnt)\<rparr>
        else stats)"

definition empty_stats :: AuditLogStats where
  "empty_stats = \<lparr> TotalLogs = 0, ActionCounts = Map.empty, SeverityCounts = Map.empty,
                   ResourceCounts = Map.empty \<rparr>"

text \<open>The two strategies of \<open>GetStats\<close>, each with its own total.\<close>

definition hourly_stats :: "AuditLog list \<Rightarrow> AuditLogFilter \<Rightarrow> AuditLogStats" where
  "hourly_stats table f =
     (process_results (hourly_query table f) empty_stats)
       \<lparr>TotalLogs := int (length (filter (in_bucket_range f) (audit_logs_hourly_stats table)))\<rparr>"

definition base_stats :: "AuditLog list \<Rightarrow> AuditLogFilter \<Rightarrow> AuditLogStats" where
  "base_stats table f =
     (process_results (base_query table f) empty_stats)
       \<lparr>TotalLogs := int (length (filter (in_time_range f) table))\<rparr>"

definition repo_GetStats :: "env \<Rightarrow> Context \<Rightarrow> AuditLogFilter \<Rightarrow> world \<Rightarrow> (error + AuditLogStats) \<times> world" where
  "repo_GetStats e ctx f0 w =
     (if IsZero (f_StartTime f0) \<or> IsZero (f_EndTime f0)
      then (Inl (Errorf ''start time and end time are required''), w)
      else
        (case (if f_TenantID f0 = []
               then (case GetTenantIDFromContext ctx of
                       Inl err \<Rightarrow> Inl err
                     | Inr tenantID \<Rightarrow> Inr (f0\<lparr>f_TenantID := tenantID\<rparr>))
               else Inr f0) of
           Inl err \<Rightarrow> (Inl err, w)
         | Inr f \<Rightarrow>
             (case getTenantScope (rows w) ctx of
                Inl err \<Rightarrow> (Inl err, w)
              | Inr db \<Rightarrow>
                  let duration = f_EndTime f - f_StartTime f in
                  if duration \<le> 24 * Hour
                  then (if reader_up e
                        then (Inr (hourly_stats (rows w) f), record_call DbSelect True (record_call DbSelect True w))
                        else (Inl (Wrap ''failed to get hourly stats'' ErrUnavailable),
                              record_call DbSelect False w))
                  else (if reader_up e
                        then (Inr (base_stats (rows w) f), record_call DbSelect True (record_call DbSelect True w))
                        else (Inl (Wrap ''failed to get counts'' ErrUnavailable),
                              record_call DbSelect False w)))))"

section \<open>Broker (internal/service/queue/sqs.go)\<close>

definition queue_of :: "queue \<Rightarrow> world \<Rightarrow> ReceivedMessage list" where
  "queue_of q w = (case q of IndexQueue \<Rightarrow> index_queue w
                           | ArchiveQueue \<Rightarrow> archive_queue w
                           | CleanupQueue \<Rightarrow> cleanup_queue w)"

definition set_queue :: "queue \<Rightarrow> ReceivedMessage list \<Rightarrow> world \<Rightarrow> world" where
  "set_queue q ms w = (case q of IndexQueue \<Rightarrow> w\<lparr>index_queue := ms\<rparr>
                               | ArchiveQueue \<Rightarrow> w\<lparr>archive_queue := ms\<rparr>
                               | CleanupQueue \<Rightarrow> w\<lparr>cleanup_queue := ms\<rparr>)"

definition sendMessage :: "env \<Rightarrow> Message \<Rightarrow> queue \<Rightarrow> world \<Rightarrow> error option \<times> world" where
  "sendMessage e msg q w =
     (if SendMessage_ok e q msg
      then (None,
            record_call (SqsSend q msg) True
              (set_queue q (queue_of q w @ [\<lparr>rm_Message = msg, ReceiptHandle = handles w\<rparr>])
                 (w\<lparr>handles := Suc (handles w)\<rparr>)))
      else (Some (Wrap ''failed to send message'' ErrUnavailable),
            record_call (SqsSend q msg) False w))"

definition SendIndexMessage :: "env \<Rightarrow> AuditLog \<Rightarrow> world \<Rightarrow> error option \<times> world" where
  "SendIndexMessage e l w =
     sendMessage e \<lparr> m_Type = INDEX, m_TenantID = TenantID l, m_Logs = [l],
                     m_Timestamp = Timestamp l, m_BeforeDate = 0 \<rparr> IndexQueue w"

definition SendBulkIndexMessage :: "env \<Rightarrow> AuditLog list \<Rightarrow> world \<Rightarrow> error option \<times> world" where
  "SendBulkIndexMessage e logs w =
     (case logs of
        [] \<Rightarrow> (None, w)
      | l # _ \<Rightarrow>
          sendMessage e \<lparr> m_Type = BULK_INDEX, m_TenantID = TenantID l, m_Logs = logs,
                          m_Timestamp = Timestamp l, m_BeforeDate = 0 \<rparr> IndexQueue w)"

definition SendArchiveMessage :: "env \<Rightarrow> string \<Rightarrow> time \<Rightarrow> world \<Rightarrow> error option \<times> world" where
  "SendArchiveMessage e tenantID beforeDate w =
     sendMessage e \<lparr> m_Type = ARCHIVE, m_TenantID = tenantID, m_Logs = [],
                     m_Timestamp = now e, m_BeforeDate = beforeDate \<rparr> ArchiveQueue w"

definition SendCleanupMessage :: "env \<Rightarrow> string \<Rightarrow> time \<Rightarrow> world \<Rightarrow> error option \<times> world" where
  "SendCleanupMessage e tenantID beforeDate w =
     sendMessage e \<lparr> m_Type = CLEANUP, m_TenantID = tenantID, m_Logs = [],
                     m_Timestamp = now e, m_BeforeDate = beforeDate \<rparr> CleanupQueue w"

definition ReceiveMessages :: "env \<Rightarrow> queue \<Rightarrow> nat \<Rightarrow> world \<Rightarrow> (error + ReceivedMessage list) \<times> world" where
  "ReceiveMessages e q maxMessages w =
     (if ReceiveMessage_ok e q
      then (Inr (take maxMessages (queue_of q w)), record_call (SqsReceive q) True w)
      else (Inl (Wrap ''failed to receive messages'' ErrUnavailable),
            record_call (SqsReceive q) False w))"

definition DeleteMessage :: "env \<Rightarrow> queue \<Rightarrow> nat \<Rightarrow> world \<Rightarrow> error option \<times> world" where
  "DeleteMessage e q receiptHandle w =
     (if DeleteMessage_ok e q receiptHandle
      then (None,
            record_call (SqsDelete q receiptHandle) True
              (set_queue q (filter (\<lambda>m. ReceiptHandle m \<noteq> receiptHandle) (queue_of q w)) w))
      else (Some (Wrap ''failed to delete message'' ErrUnavailable),
            record_call (SqsDelete q receiptHandle) False w))"

section \<open>Live publication (internal/service/pubsub/redis.go)\<close>

definition getChannelName :: "string \<Rightarrow> string" where
  "getChannelName tenantID = ''audit_logs:'' @ tenantID"

definition Publish :: "env \<Rightarrow> AuditLogResponse \<Rightarrow> world \<Rightarrow> error option \<times> world" where
  "Publish e l w =
     (let channel = getChannelName (o_TenantID l) in
      if Publish_ok e l
      then (None, record_call (RedisPublish channel l) True
                    (w\<lparr>published := published w @ [(channel, l)]\<rparr>))
      else (Some (Wrap ''failed to publish to Redis channel'' ErrUnavailable),
            record_call (RedisPublish channel l) False w))"

text \<open>\<open>WebSocketHandler.BroadcastLog\<close>: the error of \<open>Publish\<close> is logged only.\<close>

definition BroadcastLog :: "env \<Rightarrow> AuditLogResponse \<Rightarrow> world \<Rightarrow> world" where
  "BroadcastLog e l w = snd (Publish e l w)"

section \<open>Search index (internal/repository/opensearch)\<close>

definition GetIndexName :: "env \<Rightarrow> string \<Rightarrow> time \<Rightarrow> string" where
  "GetIndexName e tenantID t = ''audit_logs_'' @ tenantID @ ''_'' @ Format_date e t"

definition GetIndexPattern :: "string \<Rightarrow> string" where
  "GetIndexPattern tenantID = ''audit_logs_'' @ tenantID @ ''_*''"

datatype clause = Term string string | Match string string | Range "time option" "time option"

record SearchQuery =
  must :: "clause list"
  q_from :: "int option"
  q_size :: "int option"

definition createTimeRangeQuery :: "time \<Rightarrow> time \<Rightarrow> clause" where
  "createTimeRangeQuery startTime endTime =
     Range (if \<not> IsZero startTime then Some startTime else None)
           (if \<not> IsZero endTime then Some endTime else None)"

definition nonempty_terms :: "(string \<Rightarrow> string \<Rightarrow> clause) \<Rightarrow> (string \<times> string) list \<Rightarrow> clause list" where
  "nonempty_terms mk fvs = map (\<lambda>fv. mk (fst fv) (snd fv)) (filter (\<lambda>fv. snd fv \<noteq> []) fvs)"

definition buildSearchQuery :: "AuditLogFilter \<Rightarrow> SearchQuery" where
  "buildSearchQuery f =
     \<lparr> must =
         nonempty_terms Term
           [(''user_id'', f_UserID f), (''action'', f_Action f),
            (''resource_type'', f_ResourceType f), (''severity'', f_Severity f),
            (''session_id'', f_SessionID f)]
         @ nonempty_terms Match [(''user_agent'', f_UserAgent f), (''message'', f_Message f)]
         @ (if f_IPAddress f \<noteq> [] then [Term ''ip_address'' (f_IPAddress f)] else [])
         @ (if \<not> IsZero (f_StartTime f) \<or> \<not> IsZero (f_EndTime f)
            then [createTimeRangeQuery (f_StartTime f) (f_EndTime f)] else []),
       q_from = (if f_Page f > 0 \<and> f_PageSize f > 0
                 then Some ((f_Page f - 1) * f_PageSize f) else None),
       q_size = (if f_Page f > 0 \<and> f_PageSize f > 0 then Some (f_PageSize f) else None) \<rparr>"

text \<open>
  The engine itself is outside the repository. What the code relies on: an index
  expression with \<open>*\<close> selects every index whose name it matches; a \<open>term\<close> clause is
  equality on a keyword field, a \<open>match\<close> clause is the analyser's relation on a text
  field, a \<open>range\<close> clause bounds the timestamp; hits come sorted as the query asks,
  \<open>from\<close> and \<open>size\<close> defaulting to 0 and 10.
\<close>

fun wildcard_match :: "string \<Rightarrow> string \<Rightarrow> bool" where
  "wildcard_match [] s = (s = [])"
| "wildcard_match (p # ps) [] = (p = CHR ''*'' \<and> wildcard_match ps [])"
| "wildcard_match (p # ps) (c # cs) =
     (if p = CHR ''*'' then wildcard_match ps (c # cs) \<or> wildcard_match (p # ps) cs
      else p = c \<and> wildcard_match ps cs)"

definition doc_field :: "string \<Rightarrow> AuditLog \<Rightarrow> string" where
  "doc_field name d =
     (if name = ''user_id'' then UserID d
      else if name = ''action'' then Action d
      else if name = ''resource_type'' then ResourceType d
      else if name = ''severity'' then Severity d
      else if name = ''session_id'' then SessionID d
      else if name = ''ip_address'' then IPAddress d
      else if name = ''user_agent'' then UserAgent d
      else if name = ''message'' then Message d
      else [])"

fun clause_holds :: "env \<Rightarrow> AuditLog \<Rightarrow> clause \<Rightarrow> bool" where
  "clause_holds e d (Term name v) = (doc_field name d = v)"
| "clause_holds e d (Match name v) = text_match e (doc_field name d) v"
| "clause_holds e d (Range lo hi) =
     ((case lo of None \<Rightarrow> True | Some t \<Rightarrow> t \<le> Timestamp d)
      \<and> (case hi of None \<Rightarrow> True | Some t \<Rightarrow> Timestamp d \<le> t))"

definition engine_search :: "env \<Rightarrow> (string \<times> AuditLog) list \<Rightarrow> string \<Rightarrow> SearchQuery \<Rightarrow> AuditLog list" where
  "engine_search e docs pattern q =
     (let hits = order_desc
                   (filter (\<lambda>d. list_all (clause_holds e d) (must q))
                      (map snd (filter (\<lambda>nd. wildcard_match pattern (fst nd)) docs)));
          from = (case q_from q of None \<Rightarrow> 0 | Some n \<Rightarrow> n);
          size = (case q_size q of None \<Rightarrow> 10 | Some n \<Rightarrow> n)
      in take (nat size) (drop (nat from) hits))"

definition Search :: "env \<Rightarrow> Context \<Rightarrow> AuditLogFilter \<Rightarrow> world \<Rightarrow> (error + AuditLog list) \<times> world" where
  "Search e ctx f w =
     (case GetTenantIDFromContext ctx of
        Inl err \<Rightarrow> (Inl (Wrap ''failed to get tenant ID from context'' err), w)
      | Inr tenantID \<Rightarrow>
          (let query = buildSearchQuery f; pattern = GetIndexPattern tenantID in
           if search_up e
           then (Inr (engine_search e (documents w) pattern query),
                 record_call (OsSearch pattern) True w)
           else (Inl (Wrap ''failed to execute search'' ErrUnavailable),
                 record_call (OsSearch pattern) False w)))"

definition CreateIndex :: "env \<Rightarrow> string \<Rightarrow> time \<Rightarrow> world \<Rightarrow> error option \<times> world" where
  "CreateIndex e tenantID t w =
     (let indexName = GetIndexName e tenantID t in
      if search_up e then (None, record_call (OsCreateIndex indexName) True w)
      else (Some (Wrap ''failed to check index existence'' ErrUnavailable),
            record_call (OsCreateIndex indexName) False w))"

text \<open>Writing a document under an id replaces the document of that id in that index.\<close>

definition put_document :: "string \<Rightarrow> AuditLog \<Rightarrow> (string \<times> AuditLog) list \<Rightarrow> (string \<times> AuditLog) list" where
  "put_document indexName l docs =
     filter (\<lambda>nd. \<not> (fst nd = indexName \<and> ID (snd nd) = ID l)) docs @ [(indexName, l)]"

definition index_time :: "env \<Rightarrow> AuditLog \<Rightarrow> time" where
  "index_time e l = (if \<not> IsZero (Timestamp l) then Timestamp l else now e)"

definition Index :: "env \<Rightarrow> AuditLog \<Rightarrow> world \<Rightarrow> error option \<times> world" where
  "Index e l w =
     (let indexTime = index_time e l;
          indexName = GetIndexName e (TenantID l) indexTime
      in case CreateIndex e (TenantID l) indexTime w of
           (Some err, w1) \<Rightarrow> (Some (Wrap ''failed to ensure index exists'' err), w1)
         | (None, w1) \<Rightarrow>
             if search_up e
             then (None, record_call (OsIndex indexName [l]) True
                           (w1\<lparr>documents := put_document indexName l (documents w1)\<rparr>))
             else (Some (Wrap ''failed to index document'' ErrUnavailable),
                   record_call (OsIndex indexName [l]) False w1))"

definition bulkIndexGroup :: "env \<Rightarrow> string \<Rightarrow> AuditLog list \<Rightarrow> world \<Rightarrow> error option \<times> world" where
  "bulkIndexGroup e indexName logs w =
     (case (case logs of [] \<Rightarrow> (None, w)
                       | l # _ \<Rightarrow> CreateIndex e (TenantID l) (index_time e l) w) of
        (Some err, w1) \<Rightarrow> (Some (Wrap ''failed to ensure index exists'' err), w1)
      | (None, w1) \<Rightarrow>
          if search_up e
          then (None, record_call (OsIndex indexName logs) True
                        (w1\<lparr>documents := fold (put_document indexName) logs (documents w1)\<rparr>))
          else (Some (Wrap ''failed to execute bulk request'' ErrUnavailable),
                record_call (OsIndex indexName logs) False w1))"

fun bulkIndexGroups :: "env \<Rightarrow> (string \<times> AuditLog list) list \<Rightarrow> world \<Rightarrow> error option \<times> world" where
  "bulkIndexGroups e [] w = (None, w)"
| "bulkIndexGroups e ((indexName, groupLogs) # gs) w =
     (case bulkIndexGroup e indexName groupLogs w of
        (Some err, w1) \<Rightarrow> (Some (Wrap ''failed to bulk index group'' err), w1)
      | (None, w1) \<Rightarrow> bulkIndexGroups e gs w1)"

text \<open>\<open>logGroups\<close>: the logs of each index name, the names in order of first use.\<close>

definition logGroups :: "env \<Rightarrow> AuditLog list \<Rightarrow> (string \<times> AuditLog list) list" where
  "logGroups e logs =
     (let name = (\<lambda>l. GetIndexName e (TenantID l) (index_time e l))
      in map (\<lambda>n. (n, filter (\<lambda>l. name l = n) logs)) (remdups (map name logs)))"

definition BulkIndex :: "env \<Rightarrow> AuditLog list \<Rightarrow> world \<Rightarrow> error option \<times> world" where
  "BulkIndex e logs w = (if logs = [] then (None, w) else bulkIndexGroups e (logGroups e logs) w)"

section \<open>AuditLogService (internal/service)\<close>

text \<open>The service holds the repositories, the broker client and a broadcaster that is
  nil until \<open>SetWebSocketBroadcaster\<close> is called.\<close>

record AuditLogService =
  broadcaster :: bool

definition Create :: "env \<Rightarrow> AuditLogService \<Rightarrow> Context \<Rightarrow> CreateAuditLogRequest \<Rightarrow> world \<Rightarrow> error option \<times> world" where
  "Create e s ctx req w =
     (let auditLog = ToAuditLog req in
      case repo_Create e ctx auditLog w of
        (Some err, _, w1) \<Rightarrow> (Some (Wrap ''failed to store log in PostgreSQL'' err), w1)
      | (None, stored, w1) \<Rightarrow>
          (let w2 = snd (SendIndexMessage e stored w1);
               w3 = (if broadcaster s then BroadcastLog e (FromAuditLog stored) w2 else w2)
           in (None, w3)))"

definition BulkCreate :: "env \<Rightarrow> AuditLogService \<Rightarrow> Context \<Rightarrow> CreateAuditLogRequest list \<Rightarrow> world \<Rightarrow> error option \<times> world" where
  "BulkCreate e s ctx req w =
     (let auditLogs = map ToAuditLog req in
      case repo_BulkCreate e ctx auditLogs w of
        (Some err, _, w1) \<Rightarrow> (Some (Wrap ''failed to bulk store logs in PostgreSQL'' err), w1)
      | (None, stored, w1) \<Rightarrow>
          (let w2 = snd (SendBulkIndexMessage e stored w1);
               w3 = (if broadcaster s
                     then fold (\<lambda>l. BroadcastLog e (FromAuditLog l)) stored w2 else w2)
           in (None, w3)))"

definition GetByID :: "env \<Rightarrow> Context \<Rightarrow> string \<Rightarrow> world \<Rightarrow> (error + AuditLogResponse) \<times> world" where
  "GetByID e ctx i w =
     (case repo_GetByID e ctx i w of
        (Inl err, w1) \<Rightarrow> (Inl err, w1)
      | (Inr l, w1) \<Rightarrow> (Inr (FromAuditLog l), w1))"

definition hasSearchCriteria :: "AuditLogFilter \<Rightarrow> bool" where
  "hasSearchCriteria f =
     (f_UserID f \<noteq> [] \<or> f_Action f \<noteq> [] \<or> f_ResourceType f \<noteq> [] \<or> f_Severity f \<noteq> []
      \<or> f_IPAddress f \<noteq> [] \<or> f_UserAgent f \<noteq> [] \<or> f_Message f \<noteq> [] \<or> f_SessionID f \<noteq> [])"

text \<open>The pagination defaults \<open>List\<close> writes into the filter before it routes.\<close>

definition with_pagination :: "AuditLogFilter \<Rightarrow> AuditLogFilter" where
  "with_pagination f =
     (let f1 = (if f_Page f < 1 then f\<lparr>f_Page := 1\<rparr> else f);
          f2 = (if f_PageSize f1 < 1 then f1\<lparr>f_PageSize := 10\<rparr> else f1)
      in f2\<lparr> f_Limit := f_PageSize f2, f_Offset := (f_Page f2 - 1) * f_PageSize f2 \<rparr>)"

definition List :: "env \<Rightarrow> Context \<Rightarrow> AuditLogFilter \<Rightarrow> bool \<Rightarrow> world \<Rightarrow> (error + AuditLogResponse list) \<times> world" where
  "List e ctx f0 usePagination w =
     (let f = with_pagination f0 in
      if hasSearchCriteria f
      then (case Search e ctx f w of
              (Inl err, w1) \<Rightarrow> (Inl err, w1)
            | (Inr logs, w1) \<Rightarrow> (Inr (FromAuditLogs logs), w1))
      else (case repo_List e ctx f w of
              (Inl err, w1) \<Rightarrow> (Inl err, w1)
            | (Inr logs, w1) \<Rightarrow> (Inr (FromAuditLogs logs), w1)))"

definition GetStatsV2 :: "env \<Rightarrow> Context \<Rightarrow> AuditLogFilter \<Rightarrow> world \<Rightarrow> (error + AuditLogStats) \<times> world" where
  "GetStatsV2 e ctx f w =
     (case repo_GetStats e ctx f w of
        (Inl err, w1) \<Rightarrow> (Inl (Wrap ''failed to get audit log stats'' err), w1)
      | (Inr stats, w1) \<Rightarrow> (Inr stats, w1))"

definition ScheduleArchive :: "env \<Rightarrow> string \<Rightarrow> time \<Rightarrow> world \<Rightarrow> error option \<times> world" where
  "ScheduleArchive e tenantID beforeDate w = SendArchiveMessage e tenantID beforeDate w"

section \<open>Workers (internal/worker)\<close>

definition background :: Context where
  "background = \<lparr> ClaimsKey = None \<rparr>"

definition zero_filter :: AuditLogFilter where
  "zero_filter =
     \<lparr> f_TenantID = [], f_UserID = [], f_SessionID = [], f_IPAddress = [], f_UserAgent = [],
       f_Action = [], f_ResourceType = [], f_ResourceID = [], f_Message = [], f_Severity = [],
       f_StartTime = 0, f_EndTime = 0, f_Page = 0, f_PageSize = 0, f_Limit = 0, f_Offset = 0 \<rparr>"

subsection \<open>Archive worker\<close>

definition s3Key :: "env \<Rightarrow> string \<Rightarrow> time \<Rightarrow> string" where
  "s3Key e tenantID beforeDate =
     ''audit-logs/'' @ tenantID @ ''/audit_logs_'' @ tenantID @ ''_before_''
       @ Format_datetime e beforeDate @ ''.json''"

definition archiveLogsToS3 :: "env \<Rightarrow> string \<Rightarrow> AuditLog list \<Rightarrow> time \<Rightarrow> world \<Rightarrow> error option \<times> world" where
  "archiveLogsToS3 e tenantID logs beforeDate w =
     (let key = s3Key e tenantID beforeDate;
          archiveData = \<lparr> a_tenant_id = tenantID, a_before_date = beforeDate,
                          a_archived_at = now e, a_log_count = length logs, a_logs = logs \<rparr>
      in if PutObject_ok e key
         then (None, record_call (S3Put key archiveData) True
                       (w\<lparr>objects := filter (\<lambda>ko. fst ko \<noteq> key) (objects w) @ [(key, archiveData)]\<rparr>))
         else (Some (Wrap ''failed to upload archive to S3'' ErrUnavailable),
               record_call (S3Put key archiveData) False w))"

definition enqueueCleanupMessage :: "env \<Rightarrow> string \<Rightarrow> time \<Rightarrow> world \<Rightarrow> error option \<times> world" where
  "enqueueCleanupMessage e tenantID beforeDate w =
     (case SendCleanupMessage e tenantID beforeDate w of
        (Some err, w1) \<Rightarrow> (Some (Wrap ''failed to enqueue cleanup message'' err), w1)
      | (None, w1) \<Rightarrow> (None, w1))"

definition archive_filter :: "Message \<Rightarrow> AuditLogFilter" where
  "archive_filter msg = zero_filter\<lparr> f_TenantID := m_TenantID msg, f_EndTime := m_BeforeDate msg \<rparr>"

definition processArchiveMessage :: "env \<Rightarrow> Context \<Rightarrow> Message \<Rightarrow> world \<Rightarrow> error option \<times> world" where
  "processArchiveMessage e ctx msg w =
     (case repo_List e ctx (archive_filter msg) w of
        (Inl err, w1) \<Rightarrow> (Some (Wrap ''failed to fetch logs for archival'' err), w1)
      | (Inr logs, w1) \<Rightarrow>
          if logs = [] then enqueueCleanupMessage e (m_TenantID msg) (m_BeforeDate msg) w1
          else (case archiveLogsToS3 e (m_TenantID msg) logs (m_BeforeDate msg) w1 of
                  (Some err, w2) \<Rightarrow> (Some (Wrap ''failed to archive logs'' err), w2)
                | (None, w2) \<Rightarrow> enqueueCleanupMessage e (m_TenantID msg) (m_BeforeDate msg) w2))"

text \<open>The body of the loop over the received messages, then the loop.\<close>

definition archive_step :: "env \<Rightarrow> ReceivedMessage \<Rightarrow> world \<Rightarrow> world" where
  "archive_step e msg w =
     (if m_Type (rm_Message msg) = ARCHIVE
      then (case processArchiveMessage e background (rm_Message msg) w of
              (Some err, w1) \<Rightarrow> w1
            | (None, w1) \<Rightarrow> snd (DeleteMessage e ArchiveQueue (ReceiptHandle msg) w1))
      else w)"

definition archive_processMessages :: "env \<Rightarrow> world \<Rightarrow> error option \<times> world" where
  "archive_processMessages e w =
     (case ReceiveMessages e ArchiveQueue 10 w of
        (Inl err, w1) \<Rightarrow> (Some (Wrap ''failed to receive messages'' err), w1)
      | (Inr messages, w1) \<Rightarrow> (None, fold (archive_step e) messages w1))"

subsection \<open>Cleanup worker\<close>

definition processCleanupMessage :: "env \<Rightarrow> Context \<Rightarrow> Message \<Rightarrow> world \<Rightarrow> error option \<times> world" where
  "processCleanupMessage e ctx msg w =
     (case repo_DeleteBeforeDate e (m_TenantID msg) (m_BeforeDate msg) w of
        (Inl err, w1) \<Rightarrow> (Some (Wrap ''failed to delete logs'' err), w1)
      | (Inr deletedCount, w1) \<Rightarrow> (None, w1))"

definition cleanup_step :: "env \<Rightarrow> ReceivedMessage \<Rightarrow> world \<Rightarrow> world" where
  "cleanup_step e msg w =
     (if m_Type (rm_Message msg) = CLEANUP
      then (case processCleanupMessage e background (rm_Message msg) w of
              (Some err, w1) \<Rightarrow> w1
            | (None, w1) \<Rightarrow> snd (DeleteMessage e CleanupQueue (ReceiptHandle msg) w1))
      else w)"

definition cleanup_processMessages :: "env \<Rightarrow> world \<Rightarrow> error option \<times> world" where
  "cleanup_processMessages e w =
     (case ReceiveMessages e CleanupQueue 10 w of
        (Inl err, w1) \<Rightarrow> (Some (Wrap ''failed to receive messages'' err), w1)
      | (Inr messages, w1) \<Rightarrow> (None, fold (cleanup_step e) messages w1))"

subsection \<open>Index worker\<close>

definition processMessage :: "env \<Rightarrow> Message \<Rightarrow> world \<Rightarrow> error option \<times> world" where
  "processMessage e msg w =
     (case m_Type msg of
        INDEX \<Rightarrow>
          (case m_Logs msg of
             [l] \<Rightarrow> Index e l w
           | _ \<Rightarrow> (Some (Errorf ''invalid number of logs for INDEX message''), w))
      | BULK_INDEX \<Rightarrow>
          (if m_Logs msg = [] then (Some (Errorf ''empty logs array for BULK_INDEX message''), w)
           else BulkIndex e (m_Logs msg) w)
      | _ \<Rightarrow> (Some (Errorf ''unknown message type''), w))"

definition index_step :: "env \<Rightarrow> ReceivedMessage \<Rightarrow> world \<Rightarrow> world" where
  "index_step e msg w =
     (case processMessage e (rm_Message msg) w of
        (Some err, w1) \<Rightarrow> w1
      | (None, w1) \<Rightarrow> snd (DeleteMessage e IndexQueue (ReceiptHandle msg) w1))"

definition index_processMessages :: "env \<Rightarrow> world \<Rightarrow> error option \<times> world" where
  "index_processMessages e w =
     (case ReceiveMessages e IndexQueue 10 w of
        (Inl err, w1) \<Rightarrow> (Some (Wrap ''failed to receive messages'' err), w1)
      | (Inr messages, w1) \<Rightarrow> (None, fold (index_step e) messages w1))"

section \<open>Live fan-out hub (internal/api/websocket\_handler.go)\<close>

text \<open>A client session: its connection, the tenant it was opened for, and the
  messages waiting in its buffered \<open>send\<close> channel.\<close>

record Client =
  conn :: nat
  c_tenantID :: string
  send :: "AuditLogResponse list"

record WebSocketHandler =
  clients :: "Client list"
  tenantClients :: "string \<rightharpoonup> int"
  subscribers :: "string list"

definition websocketSendChannelBufferSize :: nat where
  "websocketSendChannelBufferSize = 256"

definition tenant_count :: "(string \<rightharpoonup> int) \<Rightarrow> string \<Rightarrow> int" where
  "tenant_count tc t = (case tc t of None \<Rightarrow> 0 | Some n \<Rightarrow> n)"

text \<open>The bookkeeping both removal paths share: decrement the tenant's count and,
  at zero, unsubscribe and drop the entry.\<close>

definition release_tenant :: "string \<Rightarrow> (string \<rightharpoonup> int) \<times> string list \<Rightarrow> (string \<rightharpoonup> int) \<times> string list" where
  "release_tenant t st =
     (let tc = (fst st)(t \<mapsto> tenant_count (fst st) t - 1) in
      if tenant_count tc t = 0 then (tc(t := None), filter (\<lambda>s. s \<noteq> t) (snd st))
      else (tc, snd st))"

definition hub_register :: "Client \<Rightarrow> WebSocketHandler \<Rightarrow> WebSocketHandler" where
  "hub_register client h =
     (let tc = (tenantClients h)(c_tenantID client \<mapsto> tenant_count (tenantClients h) (c_tenantID client) + 1)
      in h\<lparr> clients := clients h @ [client],
            tenantClients := tc,
            subscribers := (if tenant_count tc (c_tenantID client) = 1
                               \<and> c_tenantID client \<notin> set (subscribers h)
                            then subscribers h @ [c_tenantID client] else subscribers h) \<rparr>)"

definition hub_unregister :: "Client \<Rightarrow> WebSocketHandler \<Rightarrow> WebSocketHandler" where
  "hub_unregister client h =
     (if client \<in> set (clients h)
      then (let st = release_tenant (c_tenantID client) (tenantClients h, subscribers h)
            in h\<lparr> clients := remove1 client (clients h),
                  tenantClients := fst st, subscribers := snd st \<rparr>)
      else h)"

text \<open>The loop of \<open>handlePubSubMessage\<close> over the clients: a client of the message's
  tenant gets the message if its buffer has room and is dropped otherwise; a client of
  another tenant is left alone.\<close>

fun pubsub_loop :: "AuditLogResponse \<Rightarrow> Client list \<Rightarrow> (string \<rightharpoonup> int) \<times> string list
                      \<Rightarrow> Client list \<times> (string \<rightharpoonup> int) \<times> string list" where
  "pubsub_loop l [] st = ([], st)"
| "pubsub_loop l (client # cs) st =
     (if c_tenantID client = o_TenantID l
      then (if length (send client) < websocketSendChannelBufferSize
            then (let (cs', st') = pubsub_loop l cs st
                  in (client\<lparr>send := send client @ [l]\<rparr> # cs', st'))
            else pubsub_loop l cs (release_tenant (c_tenantID client) st))
      else (let (cs', st') = pubsub_loop l cs st in (client # cs', st')))"

definition handlePubSubMessage :: "AuditLogResponse \<Rightarrow> WebSocketHandler \<Rightarrow> WebSocketHandler" where
  "handlePubSubMessage l h =
     (case pubsub_loop l (clients h) (tenantClients h, subscribers h) of
        (cs, tc, subs) \<Rightarrow> h\<lparr> clients := cs, tenantClients := tc, subscribers := subs \<rparr>)"

section \<open>HTTP layer\<close>

subsection \<open>The request as the handlers see it\<close>

datatype key_value = KClaims MapClaims | KClaim claim | KNil

record GinContext =
  Keys :: "string \<rightharpoonup> key_value"
  Query :: "string \<Rightarrow> string"
  Param :: "string \<Rightarrow> string"
  ClientIP :: string
  Request_Context :: Context

datatype body =
    ErrorBody error
  | ErrorText string
  | MessageBody string
  | LogBody AuditLogResponse
  | LogsBody "AuditLogResponse list"
  | StatsBody AuditLogStats
  | RateLimitBody string int time

record Response =
  status :: nat
  payload :: body

definition StatusOK :: nat where "StatusOK = 200"
definition StatusCreated :: nat where "StatusCreated = 201"
definition StatusBadRequest :: nat where "StatusBadRequest = 400"
definition StatusUnauthorized :: nat where "StatusUnauthorized = 401"
definition StatusNotFound :: nat where "StatusNotFound = 404"
definition StatusTooManyRequests :: nat where "StatusTooManyRequests = 429"
definition StatusInternalServerError :: nat where "StatusInternalServerError = 500"

definition GetString :: "GinContext \<Rightarrow> string \<Rightarrow> string" where
  "GetString c key = (case Keys c key of Some (KClaim (StringClaim s)) \<Rightarrow> s | _ \<Rightarrow> [])"

text \<open>\<open>JWTAuth\<close> once the token has been verified and its claims decoded (the two
  \<open>c.Set\<close> calls): a claim absent from the token is stored as nil.\<close>

definition JWTAuth_set :: "MapClaims \<Rightarrow> GinContext \<Rightarrow> GinContext" where
  "JWTAuth_set claims c =
     c\<lparr> Keys := (Keys c)
          (''tenant_id'' \<mapsto> (case claims ''tenant_id'' of None \<Rightarrow> KNil | Some v \<Rightarrow> KClaim v),
           ''claims'' \<mapsto> KClaims claims) \<rparr>"

text \<open>\<open>BaseHandler.RequestCtx\<close>: every key of the gin context is laid over the
  request's context; only the claims key is read back by the code below.\<close>

definition RequestCtx :: "GinContext \<Rightarrow> Context" where
  "RequestCtx c =
     (case Keys c ''claims'' of
        None \<Rightarrow> Request_Context c
      | Some (KClaims m) \<Rightarrow> \<lparr> ClaimsKey = Some m \<rparr>
      | Some _ \<Rightarrow> \<lparr> ClaimsKey = None \<rparr>)"

subsection \<open>Binding of the create request (gin \<open>ShouldBindJSON\<close>)\<close>

text \<open>
  The body is a JSON object. Decoding leaves a field that is absent, or null, at Go's
  zero value; a value of the wrong JSON type is a decoding error. After decoding, every
  field tagged \<open>binding:"required"\<close> must differ from its zero value.
\<close>

datatype json = JString string | JTime time | JRaw string | JNull | JOther

type_synonym json_object = "(string \<times> json) list"

datatype bind_error = DecodeError string | RequiredError string

definition json_string :: "json_object \<Rightarrow> string \<Rightarrow> bind_error + string" where
  "json_string obj key =
     (case map_of obj key of
        None \<Rightarrow> Inr []
      | Some JNull \<Rightarrow> Inr []
      | Some (JString s) \<Rightarrow> Inr s
      | Some _ \<Rightarrow> Inl (DecodeError key))"

definition json_raw :: "json_object \<Rightarrow> string \<Rightarrow> string" where
  "json_raw obj key =
     (case map_of obj key of
        None \<Rightarrow> []
      | Some (JString s) \<Rightarrow> s
      | Some (JRaw s) \<Rightarrow> s
      | Some _ \<Rightarrow> [])"

definition json_time :: "json_object \<Rightarrow> string \<Rightarrow> bind_error + time" where
  "json_time obj key =
     (case map_of obj key of
        None \<Rightarrow> Inr 0
      | Some JNull \<Rightarrow> Inr 0
      | Some (JTime t) \<Rightarrow> Inr t
      | Some _ \<Rightarrow> Inl (DecodeError key))"

fun decode_strings :: "json_object \<Rightarrow> string list \<Rightarrow> bind_error + string list" where
  "decode_strings obj [] = Inr []"
| "decode_strings obj (k # ks) =
     (case json_string obj k of
        Inl err \<Rightarrow> Inl err
      | Inr v \<Rightarrow> (case decode_strings obj ks of Inl err \<Rightarrow> Inl err | Inr vs \<Rightarrow> Inr (v # vs)))"

definition decode_request :: "json_object \<Rightarrow> bind_error + CreateAuditLogRequest" where
  "decode_request obj =
     (case decode_strings obj
             [''tenant_id'', ''user_id'', ''session_id'', ''ip_address'', ''user_agent'',
              ''action'', ''resource_type'', ''resource_id'', ''severity'', ''message''] of
        Inr [t, u, ss, ip, ua, a, rt, ri, sv, m] \<Rightarrow>
          (case json_time obj ''timestamp'' of
             Inl err \<Rightarrow> Inl err
           | Inr ts \<Rightarrow>
               Inr \<lparr> r_TenantID = t, r_UserID = u, r_SessionID = ss, r_IPAddress = ip,
                     r_UserAgent = ua, r_Action = a, r_ResourceType = rt, r_ResourceID = ri,
                     r_Severity = sv, r_Message = m,
                     r_BeforeState = json_raw obj ''before_state'',
                     r_AfterState = json_raw obj ''after_state'',
                     r_Metadata = json_raw obj ''metadata'', r_Timestamp = ts \<rparr>)
      | Inr _ \<Rightarrow> Inl (DecodeError [])
      | Inl err \<Rightarrow> Inl err)"

text \<open>The \<open>binding:"required"\<close> tags of \<open>CreateAuditLogRequest\<close>, in field order.\<close>

definition validate_required :: "CreateAuditLogRequest \<Rightarrow> bind_error option" where
  "validate_required r =
     (if r_TenantID r = [] then Some (RequiredError ''TenantID'')
      else if r_Action r = [] then Some (RequiredError ''Action'')
      else if r_ResourceType r = [] then Some (RequiredError ''ResourceType'')
      else if r_ResourceID r = [] then Some (RequiredError ''ResourceID'')
      else if r_Severity r = [] then Some (RequiredError ''Severity'')
      else if r_Message r = [] then Some (RequiredError ''Message'')
      else if IsZero (r_Timestamp r) then Some (RequiredError ''Timestamp'')
      else None)"

definition ShouldBindJSON :: "json_object \<Rightarrow> bind_error + CreateAuditLogRequest" where
  "ShouldBindJSON obj =
     (case decode_request obj of
        Inl err \<Rightarrow> Inl err
      | Inr r \<Rightarrow> (case validate_required r of Some err \<Rightarrow> Inl err | None \<Rightarrow> Inr r))"

definition bind_message :: "bind_error \<Rightarrow> string" where
  "bind_message err = (case err of DecodeError k \<Rightarrow> ''cannot unmarshal field '' @ k
                                 | RequiredError k \<Rightarrow> ''failed on the required tag: '' @ k)"

subsection \<open>AuditLogHandler (internal/api/audit\_log\_handler.go)\<close>

definition CreateLog :: "env \<Rightarrow> AuditLogService \<Rightarrow> GinContext \<Rightarrow> json_object \<Rightarrow> world \<Rightarrow> Response \<times> world" where
  "CreateLog e s c obj w =
     (case ShouldBindJSON obj of
        Inl err \<Rightarrow> (\<lparr> status = StatusBadRequest, payload = ErrorText (bind_message err) \<rparr>, w)
      | Inr l \<Rightarrow>
          (case Create e s (RequestCtx c) l w of
             (Some err, w1) \<Rightarrow> (\<lparr> status = StatusInternalServerError, payload = ErrorBody err \<rparr>, w1)
           | (None, w1) \<Rightarrow>
               (\<lparr> status = StatusCreated, payload = MessageBody ''Log created successfully'' \<rparr>, w1)))"

text \<open>\<open>GetLog\<close>. The service returns either an error or a response built by
  \<open>FromAuditLog\<close>, never a nil response without an error, so the handler's
  \<open>log == nil\<close> branch has no counterpart in the result type.\<close>

definition GetLog :: "env \<Rightarrow> GinContext \<Rightarrow> world \<Rightarrow> Response \<times> world" where
  "GetLog e c w =
     (let i = Param c ''id'' in
      case GetByID e (RequestCtx c) i w of
        (Inl err, w1) \<Rightarrow> (\<lparr> status = StatusInternalServerError, payload = ErrorBody err \<rparr>, w1)
      | (Inr l, w1) \<Rightarrow> (\<lparr> status = StatusOK, payload = LogBody l \<rparr>, w1))"

text \<open>\<open>pkg/utils.ParseUserTime\<close>; the two layouts are parsed by the time library.\<close>

record parsers =
  Parse_RFC3339 :: "string \<Rightarrow> time option"
  Parse_date :: "string \<Rightarrow> time option"
  Atoi :: "string \<Rightarrow> int option"

definition Second :: int where
  "Second = 1000000000"

definition ParseUserTime :: "parsers \<Rightarrow> string \<Rightarrow> bool \<Rightarrow> error + time" where
  "ParseUserTime ps timeStr isEndTime =
     (case Parse_RFC3339 ps timeStr of
        Some t \<Rightarrow> Inr t
      | None \<Rightarrow>
          (case Parse_date ps timeStr of
             None \<Rightarrow> Inl (Errorf ''invalid time format, expected RFC3339 or YYYY-MM-DD'')
           | Some t \<Rightarrow> Inr (if isEndTime then t + (24 * Hour - Second) else t)))"

definition getFilterFromQuery :: "parsers \<Rightarrow> GinContext \<Rightarrow> error + AuditLogFilter" where
  "getFilterFromQuery ps c =
     (let tenantID = GetString c ''tenant_id'' in
      if tenantID = [] then Inl (Errorf ''tenant_id is required'')
      else
        (let f0 = zero_filter\<lparr> f_TenantID := tenantID, f_UserID := Query c ''user_id'',
                    f_Action := Query c ''action'', f_ResourceType := Query c ''resource_type'',
                    f_Severity := Query c ''severity'', f_SessionID := Query c ''session_id'',
                    f_IPAddress := Query c ''ip_address'', f_UserAgent := Query c ''user_agent'',
                    f_Message := Query c ''message'' \<rparr>;
             f1 = (if Query c ''page'' \<noteq> []
                   then (case Atoi ps (Query c ''page'') of
                           Some n \<Rightarrow> f0\<lparr>f_Page := n\<rparr> | None \<Rightarrow> f0)
                   else f0);
             f2 = (if Query c ''page_size'' \<noteq> []
                   then (case Atoi ps (Query c ''page_size'') of
                           Some n \<Rightarrow> f1\<lparr>f_PageSize := n\<rparr> | None \<Rightarrow> f1)
                   else f1)
         in if Query c ''start_time'' = [] then Inl (Errorf ''start_time is required'')
            else (case ParseUserTime ps (Query c ''start_time'') False of
                    Inl err \<Rightarrow> Inl err
                  | Inr st \<Rightarrow>
                      if Query c ''end_time'' = [] then Inl (Errorf ''end_time is required'')
                      else (case ParseUserTime ps (Query c ''end_time'') True of
                              Inl err \<Rightarrow> Inl err
                            | Inr et \<Rightarrow>
                                if st > et
                                then Inl (Errorf ''start_time must be before end_time'')
                                else Inr (f2\<lparr> f_StartTime := st, f_EndTime := et \<rparr>)))))"

definition ListLogs :: "env \<Rightarrow> parsers \<Rightarrow> GinContext \<Rightarrow> world \<Rightarrow> Response \<times> world" where
  "ListLogs e ps c w =
     (case getFilterFromQuery ps c of
        Inl err \<Rightarrow> (\<lparr> status = StatusBadRequest, payload = ErrorBody err \<rparr>, w)
      | Inr f \<Rightarrow>
          (case List e (RequestCtx c) f True w of
             (Inl err, w1) \<Rightarrow> (\<lparr> status = StatusInternalServerError, payload = ErrorBody err \<rparr>, w1)
           | (Inr logs, w1) \<Rightarrow> (\<lparr> status = StatusOK, payload = LogsBody logs \<rparr>, w1)))"

text \<open>\<open>ExportLogs\<close>: the JSON and the CSV output carry the same list of logs.\<close>

definition ExportLogs :: "env \<Rightarrow> parsers \<Rightarrow> GinContext \<Rightarrow> world \<Rightarrow> Response \<times> world" where
  "ExportLogs e ps c w =
     (let format = (if Query c ''format'' = [] then ''json'' else Query c ''format'') in
      if format \<noteq> ''json'' \<and> format \<noteq> ''csv''
      then (\<lparr> status = StatusBadRequest,
              payload = ErrorText ''Invalid format. Must be json or csv'' \<rparr>, w)
      else
        (case getFilterFromQuery ps c of
           Inl err \<Rightarrow> (\<lparr> status = StatusBadRequest, payload = ErrorBody err \<rparr>, w)
         | Inr f \<Rightarrow>
             (case List e (RequestCtx c) f False w of
                (Inl err, w1) \<Rightarrow>
                  (\<lparr> status = StatusInternalServerError, payload = ErrorBody err \<rparr>, w1)
              | (Inr logs, w1) \<Rightarrow> (\<lparr> status = StatusOK, payload = LogsBody logs \<rparr>, w1))))"

definition GetStats_handler :: "env \<Rightarrow> parsers \<Rightarrow> GinContext \<Rightarrow> world \<Rightarrow> Response \<times> world" where
  "GetStats_handler e ps c w =
     (case getFilterFromQuery ps c of
        Inl err \<Rightarrow> (\<lparr> status = StatusBadRequest, payload = ErrorBody err \<rparr>, w)
      | Inr f \<Rightarrow>
          (case GetStatsV2 e (RequestCtx c) f w of
             (Inl err, w1) \<Rightarrow> (\<lparr> status = StatusInternalServerError, payload = ErrorBody err \<rparr>, w1)
           | (Inr stats, w1) \<Rightarrow> (\<lparr> status = StatusOK, payload = StatsBody stats \<rparr>, w1)))"

text \<open>\<open>HandleWebSocket\<close> up to the registration of the client: the tenant of the
  session is the gin key the authentication stored (anything but a string there makes
  the type assertion panic).\<close>

datatype 'a handled = Done 'a | Rejected Response | Panic

definition HandleWebSocket :: "GinContext \<Rightarrow> nat \<Rightarrow> Client handled" where
  "HandleWebSocket c connection =
     (case Keys c ''tenant_id'' of
        None \<Rightarrow> Rejected \<lparr> status = StatusUnauthorized, payload = ErrorText ''No tenant ID found'' \<rparr>
      | Some (KClaim (StringClaim t)) \<Rightarrow> Done \<lparr> conn = connection, c_tenantID = t, send = [] \<rparr>
      | Some _ \<Rightarrow> Panic)"

subsection \<open>Rate limiting (internal/middleware)\<close>

text \<open>The reply of \<open>redis.Get(key).Int()\<close>: a number, \<open>redis.Nil\<close> for a missing
  key, or another error (the substrate is unreachable, or the value is not a number).\<close>

datatype redis_reply = Value int | Nil | RedisError

record redis =
  Get :: "string \<Rightarrow> redis_reply"
  Exec_ok :: "string \<Rightarrow> bool"

record Config =
  DefaultRateLimit :: int

datatype redis_command = Incr string | Expire string

text \<open>What a middleware did: the headers it set, the response it wrote if it aborted,
  whether it called \<open>c.Next()\<close>, and the commands it sent to Redis.\<close>

record middleware_result =
  headers :: "(string \<times> int) list"
  aborted :: "Response option"
  next_called :: bool
  commands :: "redis_command list"

definition getTenantRateLimit :: "Config \<Rightarrow> string \<Rightarrow> int" where
  "getTenantRateLimit cfg tenantID =
     (if DefaultRateLimit cfg > 0 then DefaultRateLimit cfg else 1000)"

definition Minute :: int where
  "Minute = 60 * Second"

text \<open>\<open>time.Time.Unix\<close>: whole seconds since 1970, Go's zero instant being
  62135596800 seconds earlier.\<close>

definition Unix :: "time \<Rightarrow> int" where
  "Unix t = t div Second - 62135596800"

text \<open>The part the two middlewares have in common, from the read of the counter on.\<close>

definition rate_limit :: "redis \<Rightarrow> time \<Rightarrow> string \<Rightarrow> string \<Rightarrow> int \<Rightarrow> middleware_result" where
  "rate_limit r nw errorText key limit =
     (case Get r key of
        RedisError \<Rightarrow> \<lparr> headers = [], aborted = None, next_called = True, commands = [] \<rparr>
      | reply \<Rightarrow>
          (let current = (case reply of Value n \<Rightarrow> n | _ \<Rightarrow> 0) in
           if current \<ge> limit
           then \<lparr> headers = [(''X-RateLimit-Limit'', limit), (''X-RateLimit-Remaining'', 0),
                             (''X-RateLimit-Reset'', Unix (nw + Minute))],
                  aborted = Some \<lparr> status = StatusTooManyRequests,
                                   payload = RateLimitBody errorText limit (Unix (nw + Minute)) \<rparr>,
                  next_called = False, commands = [] \<rparr>
           else (let remaining = (if limit - (current + 1) < 0 then 0 else limit - (current + 1))
                 in \<lparr> headers = [(''X-RateLimit-Limit'', limit),
                                  (''X-RateLimit-Remaining'', remaining),
                                  (''X-RateLimit-Reset'', Unix (nw + Minute))],
                       aborted = None, next_called = True,
                       commands = [Incr key, Expire key] \<rparr>)))"

definition TenantRateLimit :: "Config \<Rightarrow> redis \<Rightarrow> time \<Rightarrow> GinContext \<Rightarrow> middleware_result" where
  "TenantRateLimit cfg r nw c =
     (case GetTenantIDFromContext (Request_Context c) of
        Inl err \<Rightarrow>
          \<lparr> headers = [],
            aborted = Some \<lparr> status = StatusUnauthorized,
                             payload = ErrorText ''Tenant ID required for rate limiting'' \<rparr>,
            next_called = False, commands = [] \<rparr>
      | Inr tenantID \<Rightarrow>
          rate_limit r nw ''Rate limit exceeded'' (''rate_limit:tenant:'' @ tenantID)
            (getTenantRateLimit cfg tenantID))"

definition GlobalRateLimit :: "redis \<Rightarrow> time \<Rightarrow> int \<Rightarrow> GinContext \<Rightarrow> middleware_result" where
  "GlobalRateLimit r nw limit c =
     rate_limit r nw ''Global rate limit exceeded'' (''rate_limit:global:'' @ ClientIP c) limit"

section \<open>Observations and sample inputs\<close>

text \<open>The calls made between two worlds, the later one extending the trace of the
  earlier.\<close>

definition new_trace :: "world \<Rightarrow> world \<Rightarrow> (call \<times> bool) list" where
  "new_trace w w' = drop (length (trace w)) (trace w')"

definition new_calls :: "world \<Rightarrow> world \<Rightarrow> call list" where
  "new_calls w w' = map fst (new_trace w w')"

text \<open>The content predicates as the specification lists them.\<close>

definition spec_content_predicate :: "AuditLogFilter \<Rightarrow> bool" where
  "spec_content_predicate f =
     (f_UserID f \<noteq> [] \<or> f_Action f \<noteq> [] \<or> f_ResourceType f \<noteq> [] \<or> f_Severity f \<noteq> []
      \<or> f_SessionID f \<noteq> [] \<or> f_IPAddress f \<noteq> [] \<or> f_UserAgent f \<noteq> [] \<or> f_Message f \<noteq> [])"

text \<open>An environment in which every collaborator answers, an empty world, the context
  of a request whose token names a tenant, and a log.\<close>

definition env_up :: env where
  "env_up =
     \<lparr> now = 1000, uuid_New = (\<lambda>n. replicate (Suc n) CHR ''u''),
       Format_date = (\<lambda>t. ''2025_01_01''), Format_datetime = (\<lambda>t. ''2025-01-01_00-00-00''),
       text_match = (\<lambda>a b. a = b),
       writer_up = True, reader_up = True, search_up = True,
       SendMessage_ok = (\<lambda>q m. True), ReceiveMessage_ok = (\<lambda>q. True),
       DeleteMessage_ok = (\<lambda>q h. True), PutObject_ok = (\<lambda>k. True),
       Publish_ok = (\<lambda>l. True) \<rparr>"

definition world_empty :: world where
  "world_empty =
     \<lparr> rows = [], documents = [], objects = [], index_queue = [], archive_queue = [],
       cleanup_queue = [], published = [], uuids = 0, handles = 0, trace = [] \<rparr>"

definition token_context :: "string \<Rightarrow> Context" where
  "token_context t = \<lparr> ClaimsKey = Some [''tenant_id'' \<mapsto> StringClaim t] \<rparr>"

definition sample_log :: "string \<Rightarrow> string \<Rightarrow> time \<Rightarrow> AuditLog" where
  "sample_log i t ts =
     \<lparr> ID = i, TenantID = t, UserID = ''u1'', SessionID = [], IPAddress = [], UserAgent = [],
       Action = ''CREATE'', ResourceType = ''user'', ResourceID = ''r1'', Message = ''hi'',
       Severity = ''INFO'', BeforeState = [], AfterState = [], Metadata = [],
       Timestamp = ts, CreatedAt = ts, UpdatedAt = ts \<rparr>"

definition sample_request :: "string \<Rightarrow> time \<Rightarrow> CreateAuditLogRequest" where
  "sample_request t ts =
     \<lparr> r_TenantID = t, r_UserID = ''u1'', r_SessionID = [], r_IPAddress = [],
       r_UserAgent = [], r_Action = ''CREATE'', r_ResourceType = ''user'',
       r_ResourceID = ''r1'', r_Severity = ''INFO'', r_Message = ''hi'',
       r_BeforeState = [], r_AfterState = [], r_Metadata = [], r_Timestamp = ts \<rparr>"

definition time_only_filter :: AuditLogFilter where
  "time_only_filter = zero_filter\<lparr> f_TenantID := ''t1'', f_StartTime := 10, f_EndTime := 20 \<rparr>"

definition message_filter :: AuditLogFilter where
  "message_filter = time_only_filter\<lparr> f_Message := ''hi'' \<rparr>"

definition env_broker_down :: env where
  "env_broker_down = env_up\<lparr> SendMessage_ok := (\<lambda>q m. False), Publish_ok := (\<lambda>l. False) \<rparr>"

definition env_writer_down :: env where
  "env_writer_down = env_up\<lparr> writer_up := False \<rparr>"

definition with_broadcaster :: AuditLogService where
  "with_broadcaster = \<lparr> broadcaster = True \<rparr>"

definition redis_down :: redis where
  "redis_down = \<lparr> Get = (\<lambda>k. RedisError), Exec_ok = (\<lambda>k. False) \<rparr>"

text \<open>A request whose token names tenant \<open>t1\<close>, after authentication.\<close>

definition sample_gin :: GinContext where
  "sample_gin =
     JWTAuth_set [''tenant_id'' \<mapsto> StringClaim ''t1'']
       \<lparr> Keys = Map.empty, Query = (\<lambda>k. []), Param = (\<lambda>k. []), ClientIP = ''10.0.0.1'',
         Request_Context = token_context ''t1'' \<rparr>"

text \<open>The cleanup message and the archive document the archive worker builds for a
  message.\<close>

definition cleanup_message :: "env \<Rightarrow> Message \<Rightarrow> Message" where
  "cleanup_message e msg =
     \<lparr> m_Type = CLEANUP, m_TenantID = m_TenantID msg, m_Logs = [], m_Timestamp = now e,
       m_BeforeDate = m_BeforeDate msg \<rparr>"

definition archive_data :: "env \<Rightarrow> Message \<Rightarrow> AuditLog list \<Rightarrow> ArchiveData" where
  "archive_data e msg logs =
     \<lparr> a_tenant_id = m_TenantID msg, a_before_date = m_BeforeDate msg, a_archived_at = now e,
       a_log_count = length logs, a_logs = logs \<rparr>"

definition world_one :: world where
  "world_one = world_empty\<lparr> rows := [sample_log ''a'' ''t1'' 5, sample_log ''b'' ''t2'' 6] \<rparr>"

definition archive_message :: Message where
  "archive_message =
     \<lparr> m_Type = ARCHIVE, m_TenantID = ''t1'', m_Logs = [], m_Timestamp = 20, m_BeforeDate = 10 \<rparr>"

definition received_archive :: ReceivedMessage where
  "received_archive = \<lparr> rm_Message = archive_message, ReceiptHandle = 0 \<rparr>"

definition env_s3_down :: env where
  "env_s3_down = env_up\<lparr> PutObject_ok := (\<lambda>k. False) \<rparr>"

text \<open>A request for an id no row carries, a create body with no \<open>severity\<close> member, and
  a record with an empty severity.\<close>

definition get_missing :: GinContext where
  "get_missing = sample_gin\<lparr> Param := (\<lambda>k. if k = ''id'' then ''missing'' else []) \<rparr>"

definition body_without_severity :: json_object where
  "body_without_severity =
     [(''tenant_id'', JString ''t1''), (''action'', JString ''CREATE''),
      (''resource_type'', JString ''user''), (''resource_id'', JString ''r1''),
      (''message'', JString ''hi''), (''timestamp'', JTime 5)]"

definition log_without_severity :: AuditLog where
  "log_without_severity = (sample_log ''a'' ''t1'' 5)\<lparr> Severity := [] \<rparr>"




definition stat_key :: "stat_row \<Rightarrow> time \<times> string \<times> string \<times> string \<times> string" where
  "stat_key r = (bucket r, s_tenant_id r, s_action r, s_severity r, s_resource_type r)"


section \<open>Properties\<close>

subsection \<open>Traces\<close>

lemma new_trace_same: "new_trace w w = []"
  by (simp add: new_trace_def)

lemma new_trace_record:
  "new_trace w (record_call c ok w') = new_trace w w' @ [(c, ok)]" if "length (trace w) \<le> length (trace w')"
  using that by (simp add: new_trace_def record_call_def)

lemma trace_record [simp]: "trace (record_call c ok w) = trace w @ [(c, ok)]"
  by (simp add: record_call_def)

lemma rows_record [simp]: "rows (record_call c ok w) = rows w"
  by (simp add: record_call_def)

lemma new_trace_append: "trace w' = trace w @ tr \<Longrightarrow> new_trace w w' = tr"
  by (simp add: new_trace_def)

lemma new_calls_append: "trace w' = trace w @ tr \<Longrightarrow> new_calls w w' = map fst tr"
  by (simp add: new_calls_def new_trace_append)

lemma GetTenantID_token [simp]: "GetTenantIDFromContext (token_context t) = Inr t"
  by (simp add: GetTenantIDFromContext_def token_context_def)

lemma fresh_id_rows [simp]: "rows (snd (fresh_id e w)) = rows w"
  by (simp add: fresh_id_def)

lemma fresh_id_trace [simp]: "trace (snd (fresh_id e w)) = trace w"
  by (simp add: fresh_id_def)

lemma TenantID_apply_defaults [simp]: "TenantID (apply_defaults e l) = TenantID l"
  by (simp add: apply_defaults_def)

lemma gorm_Create_rows:
  "rows (snd (snd (gorm_Create e logs w))) =
     (if fst (gorm_Create e logs w) = None then rows w @ map (apply_defaults e) logs else rows w)"
  by (simp add: gorm_Create_def Let_def)

lemma gorm_Create_trace:
  "trace (snd (snd (gorm_Create e logs w))) =
     trace w @ [(DbCreate (map (apply_defaults e) logs), fst (gorm_Create e logs w) = None)]"
  by (simp add: gorm_Create_def Let_def)

lemma repo_Create_trace:
  "\<exists>new. trace (snd (snd (repo_Create e ctx l w))) =
     trace w @ [(DbCreate new, fst (repo_Create e ctx l w) = None)]"
  by (auto simp: repo_Create_def Let_def gorm_Create_def fresh_id_def split: prod.splits)

lemma sendMessage_trace:
  "trace (snd (sendMessage e msg q w)) = trace w @ [(SqsSend q msg, SendMessage_ok e q msg)]"
  by (simp add: sendMessage_def set_queue_def split: queue.splits)

lemma Publish_trace:
  "trace (snd (Publish e l w)) =
     trace w @ [(RedisPublish (getChannelName (o_TenantID l)) l, Publish_ok e l)]"
  by (simp add: Publish_def Let_def)

lemma sendMessage_rows [simp]: "rows (snd (sendMessage e msg q w)) = rows w"
  by (simp add: sendMessage_def set_queue_def record_call_def split: queue.splits)

lemma SendBulkIndexMessage_rows [simp]: "rows (snd (SendBulkIndexMessage e logs w)) = rows w"
  by (simp add: SendBulkIndexMessage_def split: list.splits)

lemma BroadcastLog_rows [simp]: "rows (BroadcastLog e l w) = rows w"
  by (simp add: BroadcastLog_def Publish_def Let_def record_call_def)

lemma fold_BroadcastLog_rows [simp]:
  "rows (fold (\<lambda>l. BroadcastLog e (f l)) ls w) = rows w"
  by (induction ls arbitrary: w) simp_all


subsection \<open>Archive and cleanup workers\<close>


lemma archive_filter_fields [simp]:
  "f_TenantID (archive_filter msg) = m_TenantID msg"
  "f_EndTime (archive_filter msg) = m_BeforeDate msg"
  "f_Limit (archive_filter msg) = 0" "f_Offset (archive_filter msg) = 0"
  by (simp_all add: archive_filter_def zero_filter_def)



lemma sendMessage_objects [simp]: "objects (snd (sendMessage e msg q w)) = objects w"
  by (simp add: sendMessage_def set_queue_def record_call_def split: queue.splits)

lemma sendMessage_result: "(fst (sendMessage e msg q w) = None) = SendMessage_ok e q msg"
  by (simp add: sendMessage_def)

lemma enqueueCleanupMessage_eq:
  "enqueueCleanupMessage e (m_TenantID msg) (m_BeforeDate msg) w =
     (if SendMessage_ok e CleanupQueue (cleanup_message e msg) then None
      else Some (Wrap ''failed to enqueue cleanup message'' (Wrap ''failed to send message'' ErrUnavailable)),
      snd (sendMessage e (cleanup_message e msg) CleanupQueue w))"
  by (simp add: enqueueCleanupMessage_def SendCleanupMessage_def cleanup_message_def sendMessage_def)

lemma archiveLogsToS3_eq:
  "archiveLogsToS3 e (m_TenantID msg) logs (m_BeforeDate msg) w =
     (let key = s3Key e (m_TenantID msg) (m_BeforeDate msg) in
      if PutObject_ok e key
      then (None, record_call (S3Put key (archive_data e msg logs)) True
                    (w\<lparr>objects := filter (\<lambda>ko. fst ko \<noteq> key) (objects w) @ [(key, archive_data e msg logs)]\<rparr>))
      else (Some (Wrap ''failed to upload archive to S3'' ErrUnavailable),
            record_call (S3Put key (archive_data e msg logs)) False w))"
  by (simp add: archiveLogsToS3_def archive_data_def Let_def)

text \<open>What \<open>processArchiveMessage\<close> does for a message with events to archive.\<close>

lemma processArchiveMessage_trace:
  assumes "select_List (rows w) (archive_filter msg) \<noteq> []"
  shows "trace (snd (processArchiveMessage e ctx msg w)) = trace w @
     (if m_TenantID msg = [] then []
      else if \<not> reader_up e then [(DbSelect, False)]
      else [(DbSelect, True),
            (S3Put (s3Key e (m_TenantID msg) (m_BeforeDate msg))
               (archive_data e msg (select_List (rows w) (archive_filter msg))),
             PutObject_ok e (s3Key e (m_TenantID msg) (m_BeforeDate msg)))]
           @ (if PutObject_ok e (s3Key e (m_TenantID msg) (m_BeforeDate msg))
              then [(SqsSend CleanupQueue (cleanup_message e msg),
                     SendMessage_ok e CleanupQueue (cleanup_message e msg))]
              else []))"
  using assms
  by (simp add: processArchiveMessage_def repo_List_def archiveLogsToS3_eq
        enqueueCleanupMessage_eq sendMessage_trace Let_def)

lemma processArchiveMessage_result:
  assumes "select_List (rows w) (archive_filter msg) \<noteq> []"
  shows "(fst (processArchiveMessage e ctx msg w) = None) =
     (m_TenantID msg \<noteq> [] \<and> reader_up e
      \<and> PutObject_ok e (s3Key e (m_TenantID msg) (m_BeforeDate msg))
      \<and> SendMessage_ok e CleanupQueue (cleanup_message e msg))"
  using assms
  by (simp add: processArchiveMessage_def repo_List_def archiveLogsToS3_eq
        enqueueCleanupMessage_eq Let_def)

lemma DeleteMessage_trace:
  "trace (snd (DeleteMessage e q h w)) = trace w @ [(SqsDelete q h, DeleteMessage_ok e q h)]"
  by (simp add: DeleteMessage_def set_queue_def split: queue.splits)

lemma archive_step_trace:
  assumes "m_Type (rm_Message rm) = ARCHIVE"
    and "select_List (rows w) (archive_filter (rm_Message rm)) \<noteq> []"
  shows "trace (archive_step e rm w) =
           trace (snd (processArchiveMessage e background (rm_Message rm) w))
           @ (if fst (processArchiveMessage e background (rm_Message rm) w) = None
              then [(SqsDelete ArchiveQueue (ReceiptHandle rm),
                     DeleteMessage_ok e ArchiveQueue (ReceiptHandle rm))]
              else [])"
  using assms
  by (simp add: archive_step_def DeleteMessage_trace split: prod.splits option.splits)


lemma archive_step_new_trace:
  assumes "m_Type (rm_Message rm) = ARCHIVE"
    and "select_List (rows w) (archive_filter (rm_Message rm)) \<noteq> []"
  shows "new_trace w (archive_step e rm w) =
     (if m_TenantID (rm_Message rm) = [] then []
      else if \<not> reader_up e then [(DbSelect, False)]
      else [(DbSelect, True),
            (S3Put (s3Key e (m_TenantID (rm_Message rm)) (m_BeforeDate (rm_Message rm)))
               (archive_data e (rm_Message rm) (select_List (rows w) (archive_filter (rm_Message rm)))),
             PutObject_ok e (s3Key e (m_TenantID (rm_Message rm)) (m_BeforeDate (rm_Message rm))))]
           @ (if PutObject_ok e (s3Key e (m_TenantID (rm_Message rm)) (m_BeforeDate (rm_Message rm)))
              then [(SqsSend CleanupQueue (cleanup_message e (rm_Message rm)),
                     SendMessage_ok e CleanupQueue (cleanup_message e (rm_Message rm)))]
                   @ (if SendMessage_ok e CleanupQueue (cleanup_message e (rm_Message rm))
                      then [(SqsDelete ArchiveQueue (ReceiptHandle rm),
                             DeleteMessage_ok e ArchiveQueue (ReceiptHandle rm))]
                      else [])
              else []))"
  by (rule new_trace_append)
     (simp add: archive_step_trace [OF assms] processArchiveMessage_trace [OF assms(2)]
        processArchiveMessage_result [OF assms(2)])

lemma archive_step_put_fails:
  assumes "m_Type (rm_Message rm) = ARCHIVE"
    and "select_List (rows w) (archive_filter (rm_Message rm)) \<noteq> []"
    and "\<not> PutObject_ok e (s3Key e (m_TenantID (rm_Message rm)) (m_BeforeDate (rm_Message rm)))"
  shows "archive_queue (archive_step e rm w) = archive_queue w"
    and "cleanup_queue (archive_step e rm w) = cleanup_queue w"
    and "objects (archive_step e rm w) = objects w"
  using assms
  by (simp_all add: archive_step_def processArchiveMessage_def repo_List_def archiveLogsToS3_eq
        record_call_def Let_def)

lemma select_world_one:
  "select_List (rows world_one) (archive_filter archive_message) = [sample_log ''a'' ''t1'' 5]"
  by (simp add: select_List_def paginate_def order_desc_def list_where_def archive_filter_def
        zero_filter_def archive_message_def world_one_def world_empty_def sample_log_def IsZero_def)








subsection \<open>Archive before delete\<close>





subsection \<open>Create\<close>

lemma Create_failure:
  assumes "repo_Create e ctx (ToAuditLog req) w = (Some err, l, w1)"
  shows "Create e s ctx req w = (Some (Wrap ''failed to store log in PostgreSQL'' err), w1)"
  using assms by (simp add: Create_def Let_def)

lemma Create_success:
  assumes "repo_Create e ctx (ToAuditLog req) w = (None, l, w1)"
  shows "fst (Create e s ctx req w) = None"
    and "trace (snd (Create e s ctx req w)) =
           trace w1 @ (SqsSend IndexQueue
                         \<lparr> m_Type = INDEX, m_TenantID = TenantID l, m_Logs = [l],
                           m_Timestamp = Timestamp l, m_BeforeDate = 0 \<rparr>,
                       SendMessage_ok e IndexQueue
                         \<lparr> m_Type = INDEX, m_TenantID = TenantID l, m_Logs = [l],
                           m_Timestamp = Timestamp l, m_BeforeDate = 0 \<rparr>)
              # (if broadcaster s
                 then [(RedisPublish (getChannelName (TenantID l)) (FromAuditLog l),
                        Publish_ok e (FromAuditLog l))]
                 else [])"
  using assms
  by (simp_all add: Create_def Let_def SendIndexMessage_def sendMessage_trace BroadcastLog_def
        Publish_trace FromAuditLog_def)

text \<open>
  Claim C3. \<open>Create\<close> succeeds if and only if the insert into the primary store
  succeeds. When the insert fails, \<open>Create\<close> returns an error and makes no call to the
  broker and none to Redis: the index queue and the published messages are as before.
  When the insert succeeds, \<open>Create\<close> returns success whatever the outcome of the
  enqueue and of the publication, both of which it attempts (the publication when a
  broadcaster is set).
\<close>

theorem Create_needs_only_the_insert:
  "(fst (Create e s ctx req w) = None) = (fst (repo_Create e ctx (ToAuditLog req) w) = None)
   \<and> (fst (repo_Create e ctx (ToAuditLog req) w) \<noteq> None \<longrightarrow>
        (\<exists>err. fst (Create e s ctx req w) = Some err)
        \<and> (\<forall>q m. SqsSend q m \<notin> set (new_calls w (snd (Create e s ctx req w))))
        \<and> (\<forall>ch l. RedisPublish ch l \<notin> set (new_calls w (snd (Create e s ctx req w))))
        \<and> index_queue (snd (Create e s ctx req w)) = index_queue w
        \<and> published (snd (Create e s ctx req w)) = published w)
   \<and> (fst (repo_Create e ctx (ToAuditLog req) w) = None \<longrightarrow>
        fst (Create e s ctx req w) = None
        \<and> (\<exists>m. (SqsSend IndexQueue m, SendMessage_ok e IndexQueue m)
                 \<in> set (new_trace w (snd (Create e s ctx req w))))
        \<and> (broadcaster s \<longrightarrow>
             (\<exists>ch l. (RedisPublish ch l, Publish_ok e l)
                 \<in> set (new_trace w (snd (Create e s ctx req w))))))"
proof -
  obtain r l w1 where rc: "repo_Create e ctx (ToAuditLog req) w = (r, l, w1)"
    by (cases "repo_Create e ctx (ToAuditLog req) w") auto
  from repo_Create_trace [of e ctx "ToAuditLog req" w] rc
  obtain new where tr: "trace w1 = trace w @ [(DbCreate new, r = None)]"
    by auto
  have q: "index_queue w1 = index_queue w \<and> published w1 = published w" if "r \<noteq> None"
    using rc that
    by (auto simp: repo_Create_def Let_def gorm_Create_def fresh_id_def record_call_def
          split: prod.splits if_splits)
  show ?thesis
  proof (cases r)
    case None
    with rc have rc': "repo_Create e ctx (ToAuditLog req) w = (None, l, w1)" by simp
    note s = Create_success [OF rc']
    have nt: "new_trace w (snd (Create e s ctx req w)) =
        (DbCreate new, True) # drop (length (trace w1)) (trace (snd (Create e s ctx req w)))"
      using tr None by (simp add: new_trace_def s(2))
    show ?thesis
      using rc' s(1) by (auto simp: nt s(2))
  next
    case (Some err)
    with rc have rc': "repo_Create e ctx (ToAuditLog req) w = (Some err, l, w1)" by simp
    have c: "Create e s ctx req w = (Some (Wrap ''failed to store log in PostgreSQL'' err), w1)"
      by (rule Create_failure [OF rc'])
    have "new_calls w w1 = [DbCreate new]"
      using tr by (simp add: new_calls_def new_trace_def)
    then show ?thesis
      using rc' c q Some by simp
  qed
qed

lemma repo_Create_sample_ok:
  "fst (repo_Create env_broker_down (token_context ''t1'') (ToAuditLog (sample_request ''t1'' 5)) world_empty) = None"
  by (simp add: repo_Create_def ToAuditLog_def sample_request_def world_empty_def fresh_id_def
        gorm_Create_def insert_ok_def env_broker_down_def env_up_def Let_def)

lemma repo_Create_sample_fails:
  "fst (repo_Create env_writer_down (token_context ''t1'') (ToAuditLog (sample_request ''t1'' 5)) world_empty) \<noteq> None"
  by (simp add: repo_Create_def ToAuditLog_def sample_request_def world_empty_def fresh_id_def
        gorm_Create_def insert_ok_def env_writer_down_def env_up_def Let_def)

theorem Create_needs_only_the_insert_witness:
  "fst (repo_Create env_broker_down (token_context ''t1'') (ToAuditLog (sample_request ''t1'' 5)) world_empty) = None
   \<and> fst (Create env_broker_down with_broadcaster (token_context ''t1'') (sample_request ''t1'' 5) world_empty) = None
   \<and> fst (repo_Create env_writer_down (token_context ''t1'') (ToAuditLog (sample_request ''t1'' 5)) world_empty) \<noteq> None
   \<and> fst (Create env_writer_down with_broadcaster (token_context ''t1'') (sample_request ''t1'' 5) world_empty) \<noteq> None
   \<and> index_queue (snd (Create env_writer_down with_broadcaster (token_context ''t1'') (sample_request ''t1'' 5) world_empty)) = []"
  using Create_needs_only_the_insert [of env_broker_down with_broadcaster "token_context ''t1''" "sample_request ''t1'' 5" world_empty]
        Create_needs_only_the_insert [of env_writer_down with_broadcaster "token_context ''t1''" "sample_request ''t1'' 5" world_empty]
        repo_Create_sample_ok repo_Create_sample_fails
  by (simp add: world_empty_def)
subsection \<open>Statistics\<close>






lemma stat_key_mk [simp]: "stat_key (mk_stat_row table K) = K"
  by (simp add: stat_key_def mk_stat_row_def split: prod.splits)

lemma s_count_mk [simp]:
  "s_count (mk_stat_row table K) = int (length (filter (\<lambda>l. stat_of l = K) table))"
  by (simp add: mk_stat_row_def split: prod.splits)











lemma group_count_filter_same [simp]: "filter (\<lambda>x. fst x = c) (group_count c col xs) = group_count c col xs"
  by (simp add: group_count_def filter_map o_def)

lemma group_count_filter_other [simp]: "c \<noteq> c' \<Longrightarrow> filter (\<lambda>x. fst x = c) (group_count c' col xs) = []"
  by (simp add: group_count_def filter_map o_def)
















subsection \<open>Reading one event\<close>

lemma GetByID_not_found:
  assumes "GetTenantIDFromContext ctx = Inr t" and "reader_up e"
    and "\<forall>l \<in> set (rows w). TenantID l = t \<longrightarrow> ID l \<noteq> i"
  shows "fst (GetByID e ctx i w) = Inl ErrRecordNotFound"
proof -
  have "filter (\<lambda>l. ID l = i) (filter (\<lambda>l. TenantID l = t) (rows w)) = []"
    using assms(3) by (auto simp: filter_empty_conv)
  then show ?thesis
    using assms(1,2)
    by (simp add: GetByID_def repo_GetByID_def getTenantScope_def gorm_First_def)
qed

lemma GetLog_never_404: "status (fst (GetLog e c w)) \<noteq> StatusNotFound"
  by (simp add: GetLog_def Let_def StatusNotFound_def StatusInternalServerError_def StatusOK_def
        split: prod.splits sum.splits)

lemma GetLog_error_is_500:
  "fst (GetByID e (RequestCtx c) (Param c ''id'') w) = Inl err \<Longrightarrow>
   fst (GetLog e c w) = \<lparr> status = StatusInternalServerError, payload = ErrorBody err \<rparr>"
  by (cases "GetByID e (RequestCtx c) (Param c ''id'') w") (auto simp: GetLog_def Let_def)

lemma RequestCtx_sample [simp]: "RequestCtx (sample_gin\<lparr>Param := p\<rparr>) = token_context ''t1''"
  by (simp add: RequestCtx_def sample_gin_def JWTAuth_set_def token_context_def)

text \<open>
  Claim C5. For an id that no row of the caller's tenant carries, \<open>GetByID\<close> fails with the
  record-not-found error of the store, and the handler \<open>GetLog\<close> answers that error, like
  every other error, with status 500: the 404 branch is taken only for a nil log with a nil
  error, which \<open>GetByID\<close> never returns.
\<close>

theorem GetLog_missing_id_is_500:
  "fst (GetByID env_up (RequestCtx get_missing) (Param get_missing ''id'') world_one)
     = Inl ErrRecordNotFound
   \<and> fst (GetLog env_up get_missing world_one)
     = \<lparr> status = 500, payload = ErrorBody ErrRecordNotFound \<rparr>"
proof -
  have n: "fst (GetByID env_up (RequestCtx get_missing) (Param get_missing ''id'') world_one)
     = Inl ErrRecordNotFound"
    by (rule GetByID_not_found [where t = "''t1''"])
       (simp_all add: get_missing_def env_up_def world_one_def world_empty_def sample_log_def)
  from GetLog_error_is_500 [OF n] n show ?thesis
    by (simp add: StatusInternalServerError_def)
qed


subsection \<open>List routing\<close>

lemma hasSearchCriteria_with_pagination:
  "hasSearchCriteria (with_pagination f) = spec_content_predicate f"
  by (auto simp: hasSearchCriteria_def with_pagination_def spec_content_predicate_def Let_def)

lemma Search_trace:
  "trace (snd (Search e ctx f w)) = trace w @
     (case GetTenantIDFromContext ctx of Inl _ \<Rightarrow> []
      | Inr t \<Rightarrow> [(OsSearch (GetIndexPattern t), search_up e)])"
  by (simp add: Search_def Let_def split: sum.splits)

lemma repo_List_trace:
  "trace (snd (repo_List e ctx f w)) = trace w @
     (if f_TenantID f = [] then [] else [(DbSelect, reader_up e)])"
  by (simp add: repo_List_def)

lemma List_search:
  "spec_content_predicate f \<Longrightarrow>
   List e ctx f up w = apfst (map_sum id FromAuditLogs) (Search e ctx (with_pagination f) w)"
  by (simp add: List_def Let_def hasSearchCriteria_with_pagination split: prod.splits sum.splits)

lemma List_store:
  "\<not> spec_content_predicate f \<Longrightarrow>
   List e ctx f up w = apfst (map_sum id FromAuditLogs) (repo_List e ctx (with_pagination f) w)"
  by (simp add: List_def Let_def hasSearchCriteria_with_pagination split: prod.splits sum.splits)

lemma f_TenantID_with_pagination [simp]: "f_TenantID (with_pagination f) = f_TenantID f"
  by (simp add: with_pagination_def Let_def)

text \<open>
  Claim C6. A list query is served by the search index exactly when its filter holds at
  least one content predicate (user\_id, action, resource\_type, severity, session\_id,
  ip\_address, user\_agent, message): then \<open>List\<close> returns what \<open>Search\<close> returns
  and the only call it makes is the search; otherwise, so for a filter with a time range
  only, it returns what the primary store's \<open>List\<close> returns and the only call is
  the select.
\<close>

theorem List_routing:
  "(spec_content_predicate f \<longrightarrow>
      List e ctx f up w = apfst (map_sum id FromAuditLogs) (Search e ctx (with_pagination f) w)
      \<and> new_calls w (snd (List e ctx f up w)) =
          (case GetTenantIDFromContext ctx of Inl err \<Rightarrow> []
           | Inr t \<Rightarrow> [OsSearch (GetIndexPattern t)]))
   \<and> (\<not> spec_content_predicate f \<longrightarrow>
      List e ctx f up w = apfst (map_sum id FromAuditLogs) (repo_List e ctx (with_pagination f) w)
      \<and> new_calls w (snd (List e ctx f up w)) = (if f_TenantID f = [] then [] else [DbSelect]))"
proof (intro conjI impI)
  assume c: "spec_content_predicate f"
  show "List e ctx f up w = apfst (map_sum id FromAuditLogs) (Search e ctx (with_pagination f) w)"
    using c by (rule List_search)
  show "new_calls w (snd (List e ctx f up w)) =
          (case GetTenantIDFromContext ctx of Inl err \<Rightarrow> []
           | Inr t \<Rightarrow> [OsSearch (GetIndexPattern t)])"
    by (simp add: List_search [OF c] new_calls_append [OF Search_trace] split: sum.splits)
next
  assume c: "\<not> spec_content_predicate f"
  show "List e ctx f up w = apfst (map_sum id FromAuditLogs) (repo_List e ctx (with_pagination f) w)"
    using c by (rule List_store)
  show "new_calls w (snd (List e ctx f up w)) = (if f_TenantID f = [] then [] else [DbSelect])"
    by (simp add: List_store [OF c] new_calls_append [OF repo_List_trace])
qed

theorem List_routing_witness:
  "spec_content_predicate message_filter
   \<and> new_calls world_empty
        (snd (List env_up (token_context ''t1'') message_filter True world_empty))
      = [OsSearch ''audit_logs_t1_*'']
   \<and> \<not> spec_content_predicate time_only_filter
   \<and> new_calls world_empty
        (snd (List env_up (token_context ''t1'') time_only_filter True world_empty)) = [DbSelect]"
proof -
  have c1: "spec_content_predicate message_filter"
    by (simp add: spec_content_predicate_def message_filter_def)
  have c2: "\<not> spec_content_predicate time_only_filter"
    by (simp add: spec_content_predicate_def time_only_filter_def zero_filter_def)
  have t: "f_TenantID time_only_filter \<noteq> []"
    by (simp add: time_only_filter_def)
  from c1 List_routing [of message_filter env_up "token_context ''t1''" True world_empty]
  have "new_calls world_empty
          (snd (List env_up (token_context ''t1'') message_filter True world_empty))
        = (case GetTenantIDFromContext (token_context ''t1'') of Inl err \<Rightarrow> []
           | Inr t \<Rightarrow> [OsSearch (GetIndexPattern t)])"
    by blast
  then have a: "new_calls world_empty
          (snd (List env_up (token_context ''t1'') message_filter True world_empty))
        = [OsSearch ''audit_logs_t1_*'']"
    by (simp add: GetIndexPattern_def)
  from c2 List_routing [of time_only_filter env_up "token_context ''t1''" True world_empty]
  have "new_calls world_empty
          (snd (List env_up (token_context ''t1'') time_only_filter True world_empty))
        = (if f_TenantID time_only_filter = [] then [] else [DbSelect])"
    by blast
  with t have b: "new_calls world_empty
          (snd (List env_up (token_context ''t1'') time_only_filter True world_empty)) = [DbSelect]"
    by simp
  from c1 a c2 b show ?thesis by blast
qed

subsection \<open>Archive ordering\<close>

text \<open>
  Claim C7. For an ARCHIVE message with events to archive, the calls the archive worker
  makes come in this order: every enqueue of a CLEANUP message is preceded by the
  successful write of the archive object of that message; every delete of the ARCHIVE
  message is preceded by a successful enqueue of the CLEANUP message, and happens only when
  the processing returned no error. If the object write fails, no CLEANUP message is
  enqueued and the ARCHIVE message is not deleted: both queues are as before.
\<close>

theorem cleanup_enqueued_after_object_write:
  assumes "m_Type (rm_Message rm) = ARCHIVE"
    and "select_List (rows w) (archive_filter (rm_Message rm)) \<noteq> []"
  shows "(\<forall>i m ok. i < length (new_trace w (archive_step e rm w))
            \<and> new_trace w (archive_step e rm w) ! i = (SqsSend CleanupQueue m, ok) \<longrightarrow>
          (\<exists>j < i. new_trace w (archive_step e rm w) ! j =
             (S3Put (s3Key e (m_TenantID (rm_Message rm)) (m_BeforeDate (rm_Message rm)))
                (archive_data e (rm_Message rm)
                   (select_List (rows w) (archive_filter (rm_Message rm)))), True)))
       \<and> (\<forall>i h ok. i < length (new_trace w (archive_step e rm w))
            \<and> new_trace w (archive_step e rm w) ! i = (SqsDelete ArchiveQueue h, ok) \<longrightarrow>
          fst (processArchiveMessage e background (rm_Message rm) w) = None
          \<and> (\<exists>j < i. new_trace w (archive_step e rm w) ! j =
                (SqsSend CleanupQueue (cleanup_message e (rm_Message rm)), True)))
       \<and> (\<not> PutObject_ok e (s3Key e (m_TenantID (rm_Message rm)) (m_BeforeDate (rm_Message rm))) \<longrightarrow>
          (\<forall>m ok. (SqsSend CleanupQueue m, ok) \<notin> set (new_trace w (archive_step e rm w)))
          \<and> (\<forall>h ok. (SqsDelete ArchiveQueue h, ok) \<notin> set (new_trace w (archive_step e rm w)))
          \<and> archive_queue (archive_step e rm w) = archive_queue w
          \<and> cleanup_queue (archive_step e rm w) = cleanup_queue w)"
proof (intro conjI allI impI)
  note tr = archive_step_new_trace [OF assms, of e]
  note res = processArchiveMessage_result [OF assms(2), of e background]
  fix i m ok
  assume a: "i < length (new_trace w (archive_step e rm w))
            \<and> new_trace w (archive_step e rm w) ! i = (SqsSend CleanupQueue m, ok)"
  then have "i = 2 \<and> PutObject_ok e (s3Key e (m_TenantID (rm_Message rm)) (m_BeforeDate (rm_Message rm)))"
    unfolding tr by (auto simp: nth_Cons' less_Suc_eq split: if_splits)
  then show "\<exists>j < i. new_trace w (archive_step e rm w) ! j =
             (S3Put (s3Key e (m_TenantID (rm_Message rm)) (m_BeforeDate (rm_Message rm)))
                (archive_data e (rm_Message rm)
                   (select_List (rows w) (archive_filter (rm_Message rm)))), True)"
    using a unfolding tr by (intro exI [of _ 1]) (auto split: if_splits)
next
  note tr = archive_step_new_trace [OF assms, of e]
  note res = processArchiveMessage_result [OF assms(2), of e background]
  fix i h ok
  assume a: "i < length (new_trace w (archive_step e rm w))
            \<and> new_trace w (archive_step e rm w) ! i = (SqsDelete ArchiveQueue h, ok)"
  then have s: "i = 3 \<and> m_TenantID (rm_Message rm) \<noteq> [] \<and> reader_up e
      \<and> PutObject_ok e (s3Key e (m_TenantID (rm_Message rm)) (m_BeforeDate (rm_Message rm)))
      \<and> SendMessage_ok e CleanupQueue (cleanup_message e (rm_Message rm))"
    unfolding tr by (auto simp: nth_Cons' less_Suc_eq split: if_splits)
  then show "fst (processArchiveMessage e background (rm_Message rm) w) = None"
    by (simp add: res)
  from s show "\<exists>j < i. new_trace w (archive_step e rm w) ! j =
                (SqsSend CleanupQueue (cleanup_message e (rm_Message rm)), True)"
    unfolding tr by (intro exI [of _ 2]) auto
next
  note tr = archive_step_new_trace [OF assms, of e]
  assume p: "\<not> PutObject_ok e (s3Key e (m_TenantID (rm_Message rm)) (m_BeforeDate (rm_Message rm)))"
  fix m ok
  show "(SqsSend CleanupQueue m, ok) \<notin> set (new_trace w (archive_step e rm w))"
    unfolding tr using p by auto
next
  note tr = archive_step_new_trace [OF assms, of e]
  assume p: "\<not> PutObject_ok e (s3Key e (m_TenantID (rm_Message rm)) (m_BeforeDate (rm_Message rm)))"
  fix h ok
  show "(SqsDelete ArchiveQueue h, ok) \<notin> set (new_trace w (archive_step e rm w))"
    unfolding tr using p by auto
next
  assume p: "\<not> PutObject_ok e (s3Key e (m_TenantID (rm_Message rm)) (m_BeforeDate (rm_Message rm)))"
  show "archive_queue (archive_step e rm w) = archive_queue w"
    by (rule archive_step_put_fails(1) [OF assms p])
next
  assume p: "\<not> PutObject_ok e (s3Key e (m_TenantID (rm_Message rm)) (m_BeforeDate (rm_Message rm)))"
  show "cleanup_queue (archive_step e rm w) = cleanup_queue w"
    by (rule archive_step_put_fails(2) [OF assms p])
qed


theorem cleanup_enqueued_after_object_write_witness:
  "m_Type (rm_Message received_archive) = ARCHIVE
   \<and> select_List (rows world_one) (archive_filter (rm_Message received_archive)) \<noteq> []
   \<and> \<not> PutObject_ok env_s3_down
         (s3Key env_s3_down (m_TenantID (rm_Message received_archive))
            (m_BeforeDate (rm_Message received_archive)))
   \<and> archive_queue (archive_step env_s3_down received_archive world_one) = archive_queue world_one
   \<and> cleanup_queue (archive_step env_s3_down received_archive world_one) = cleanup_queue world_one"
proof -
  have t: "m_Type (rm_Message received_archive) = ARCHIVE"
    by (simp add: received_archive_def archive_message_def)
  have s: "select_List (rows world_one) (archive_filter (rm_Message received_archive)) \<noteq> []"
    by (simp add: received_archive_def select_world_one)
  have p: "\<not> PutObject_ok env_s3_down
         (s3Key env_s3_down (m_TenantID (rm_Message received_archive))
            (m_BeforeDate (rm_Message received_archive)))"
    by (simp add: env_s3_down_def)
  from cleanup_enqueued_after_object_write [OF t s, of env_s3_down] p t s
  show ?thesis by blast
qed


subsection \<open>Rate limiting\<close>

lemma rate_limit_fail_open:
  "Get r key = RedisError \<Longrightarrow>
   rate_limit r nw txt key limit = \<lparr> headers = [], aborted = None, next_called = True, commands = [] \<rparr>"
  by (simp add: rate_limit_def)

text \<open>
  Claim C8. When the read of the counter fails (an error other than \<open>redis.Nil\<close>), the
  global middleware and the tenant middleware both call the next handler and write no
  response, so no 429.
\<close>

theorem rate_limit_fails_open:
  "(Get r (''rate_limit:global:'' @ ClientIP c) = RedisError \<longrightarrow>
      next_called (GlobalRateLimit r nw limit c) \<and> aborted (GlobalRateLimit r nw limit c) = None)
   \<and> (\<forall>t. GetTenantIDFromContext (Request_Context c) = Inr t
           \<and> Get r (''rate_limit:tenant:'' @ t) = RedisError \<longrightarrow>
      next_called (TenantRateLimit cfg r nw c) \<and> aborted (TenantRateLimit cfg r nw c) = None)"
  by (simp add: GlobalRateLimit_def TenantRateLimit_def rate_limit_fail_open)

theorem rate_limit_fails_open_witness:
  "Get redis_down (''rate_limit:global:'' @ ClientIP sample_gin) = RedisError
   \<and> next_called (GlobalRateLimit redis_down 0 10000 sample_gin)
   \<and> aborted (GlobalRateLimit redis_down 0 10000 sample_gin) = None
   \<and> GetTenantIDFromContext (Request_Context sample_gin) = Inr ''t1''
   \<and> Get redis_down (''rate_limit:tenant:'' @ ''t1'') = RedisError
   \<and> next_called (TenantRateLimit \<lparr> DefaultRateLimit = 1000 \<rparr> redis_down 0 sample_gin)
   \<and> aborted (TenantRateLimit \<lparr> DefaultRateLimit = 1000 \<rparr> redis_down 0 sample_gin) = None"
proof -
  have g: "Get redis_down (''rate_limit:global:'' @ ClientIP sample_gin) = RedisError"
    by (simp add: redis_down_def)
  have t: "GetTenantIDFromContext (Request_Context sample_gin) = Inr ''t1''"
    by (simp add: sample_gin_def JWTAuth_set_def)
  have k: "Get redis_down (''rate_limit:tenant:'' @ ''t1'') = RedisError"
    by (simp add: redis_down_def)
  from rate_limit_fails_open [of redis_down sample_gin 0 10000 "\<lparr> DefaultRateLimit = 1000 \<rparr>"] g t k
  show ?thesis by blast
qed
subsection \<open>Severity of a created event\<close>

lemma decode_request_severity:
  assumes "decode_request obj = Inr r"
  shows "json_string obj ''severity'' = Inr (r_Severity r)"
  using assms
  by (auto simp: decode_request_def split: sum.splits list.splits)

lemma json_string_absent: "map_of obj key = None \<Longrightarrow> json_string obj key = Inr []"
  by (simp add: json_string_def)

lemma validate_required_severity: "r_Severity r = [] \<Longrightarrow> validate_required r \<noteq> None"
  by (simp add: validate_required_def)

lemma ShouldBindJSON_absent_severity:
  assumes "map_of obj ''severity'' = None"
  shows "\<exists>err. ShouldBindJSON obj = Inl err"
proof (cases "decode_request obj")
  case (Inl err)
  then show ?thesis by (simp add: ShouldBindJSON_def)
next
  case (Inr r)
  from decode_request_severity [OF Inr] json_string_absent [OF assms]
  have "r_Severity r = []" by simp
  from validate_required_severity [OF this] Inr show ?thesis
    by (auto simp: ShouldBindJSON_def)
qed

lemma apply_defaults_severity: "Severity l = [] \<Longrightarrow> Severity (apply_defaults e l) = ''INFO''"
  by (simp add: apply_defaults_def)

lemma repo_Create_rows:
  "fst (repo_Create e ctx l w) = None \<Longrightarrow>
   \<exists>i. rows (snd (snd (repo_Create e ctx l w))) = rows w @ [apply_defaults e (l\<lparr>ID := i\<rparr>)]"
proof (cases "ID l = []")
  case True
  assume "fst (repo_Create e ctx l w) = None"
  with True show ?thesis
    by (intro exI [of _ "uuid_New e (uuids w)"])
       (simp add: repo_Create_def gorm_Create_def fresh_id_def Let_def split: if_splits)
next
  case False
  assume "fst (repo_Create e ctx l w) = None"
  with False show ?thesis
    by (intro exI [of _ "ID l"])
       (simp add: repo_Create_def gorm_Create_def fresh_id_def Let_def split: if_splits)
qed

lemma CreateLog_absent_severity:
  assumes "map_of obj ''severity'' = None"
  shows "status (fst (CreateLog e s c obj w)) = StatusBadRequest \<and> snd (CreateLog e s c obj w) = w"
proof -
  from ShouldBindJSON_absent_severity [OF assms] obtain err where "ShouldBindJSON obj = Inl err" ..
  then show ?thesis by (simp add: CreateLog_def)
qed

lemma repo_Create_default_severity:
  assumes "Severity l = []" and "fst (repo_Create e ctx l w) = None"
  shows "\<exists>stored. rows (snd (snd (repo_Create e ctx l w))) = rows w @ [stored]
           \<and> Severity stored = ''INFO''"
proof -
  from repo_Create_rows [OF assms(2)] obtain i where
    "rows (snd (snd (repo_Create e ctx l w))) = rows w @ [apply_defaults e (l\<lparr>ID := i\<rparr>)]" ..
  with assms(1) show ?thesis
    by (simp add: apply_defaults_severity)
qed

text \<open>
  Claim C9 (as the code has it). A create request whose body has no \<open>severity\<close> member is
  rejected by the binding with status 400 and nothing is stored; the default \<open>INFO\<close> is
  applied by the store, to a record inserted with an empty severity.
\<close>

theorem absent_severity_is_rejected:
  "(map_of obj ''severity'' = None \<longrightarrow>
      status (fst (CreateLog e s c obj w)) = StatusBadRequest \<and> snd (CreateLog e s c obj w) = w)
   \<and> (Severity l = [] \<and> fst (repo_Create e ctx l w) = None \<longrightarrow>
      (\<exists>stored. rows (snd (snd (repo_Create e ctx l w))) = rows w @ [stored]
         \<and> Severity stored = ''INFO''))"
  using CreateLog_absent_severity [of obj e s c w] repo_Create_default_severity [of l e ctx w]
  by blast

theorem absent_severity_is_rejected_witness:
  "map_of [(''action'', JString ''CREATE'')] ''severity'' = None
   \<and> status (fst (CreateLog env_up with_broadcaster sample_gin [(''action'', JString ''CREATE'')] world_empty))
       = StatusBadRequest
   \<and> Severity log_without_severity = []
   \<and> fst (repo_Create env_up background log_without_severity world_empty) = None
   \<and> map Severity (rows (snd (snd (repo_Create env_up background log_without_severity world_empty))))
       = [''INFO'']"
proof -
  have a: "map_of [(''action'', JString ''CREATE'')] ''severity'' = None"
    by simp
  have b: "Severity log_without_severity = []"
    by (simp add: log_without_severity_def)
  have c: "fst (repo_Create env_up background log_without_severity world_empty) = None"
    by (simp add: repo_Create_def gorm_Create_def insert_ok_def Let_def log_without_severity_def
          sample_log_def world_empty_def env_up_def)
  from absent_severity_is_rejected [of "[(''action'', JString ''CREATE'')]" env_up with_broadcaster
         sample_gin world_empty log_without_severity background] a b c
  have d: "status (fst (CreateLog env_up with_broadcaster sample_gin [(''action'', JString ''CREATE'')] world_empty))
       = StatusBadRequest"
    and e: "\<exists>stored. rows (snd (snd (repo_Create env_up background log_without_severity world_empty)))
              = rows world_empty @ [stored] \<and> Severity stored = ''INFO''"
    by blast+
  from e have "map Severity (rows (snd (snd (repo_Create env_up background log_without_severity world_empty))))
       = [''INFO'']"
    by (auto simp: world_empty_def)
  with a b c d show ?thesis by blast
qed


text \<open>
  A body with every required member except \<open>severity\<close>: the request is answered with 400
  and the store stays empty, so an absent severity is not defaulted to \<open>INFO\<close> on the
  way in.
\<close>

theorem absent_severity_counterexample:
  "map_of body_without_severity ''severity'' = None
   \<and> ShouldBindJSON body_without_severity = Inl (RequiredError ''Severity'')
   \<and> status (fst (CreateLog env_up with_broadcaster sample_gin body_without_severity world_empty)) = 400
   \<and> rows (snd (CreateLog env_up with_broadcaster sample_gin body_without_severity world_empty)) = []"
  by (simp add: body_without_severity_def ShouldBindJSON_def decode_request_def json_string_def
        json_time_def json_raw_def validate_required_def IsZero_def CreateLog_def
        StatusBadRequest_def world_empty_def)


subsection \<open>BulkCreate\<close>

lemma assign_ids_props:
  "assign_ids e t logs w = (ls, w') \<Longrightarrow>
     length ls = length logs \<and> (\<forall>l \<in> set ls. TenantID l = t)
     \<and> rows w' = rows w \<and> trace w' = trace w"
proof (induction logs arbitrary: w ls w')
  case Nil
  then show ?case by simp
next
  case (Cons l logs)
  obtain l1 w1 where s1:
    "(if ID l = [] then (let (i, w') = fresh_id e w in (l\<lparr>ID := i\<rparr>, w')) else (l, w)) = (l1, w1)"
    by (cases "(if ID l = [] then (let (i, w') = fresh_id e w in (l\<lparr>ID := i\<rparr>, w')) else (l, w))") auto
  obtain rest w2 where s2: "assign_ids e t logs w1 = (rest, w2)"
    by (cases "assign_ids e t logs w1") auto
  have w1: "rows w1 = rows w \<and> trace w1 = trace w"
    using s1 by (auto simp: fresh_id_def split: if_splits)
  from Cons.prems s1 s2 have eq: "ls = l1\<lparr>TenantID := t\<rparr> # rest" "w' = w2"
    by (simp_all add: Let_def)
  from Cons.IH [OF s2] w1 eq show ?case by simp
qed

lemma repo_BulkCreate_tenant:
  assumes "GetTenantIDFromContext ctx = Inr t"
  shows "\<exists>new. length new = length logs \<and> (\<forall>l \<in> set new. TenantID l = t)
           \<and> rows (snd (snd (repo_BulkCreate e ctx logs w))) =
               (if fst (repo_BulkCreate e ctx logs w) = None then rows w @ new else rows w)
           \<and> trace (snd (snd (repo_BulkCreate e ctx logs w))) =
               trace w @ [(DbCreate new, fst (repo_BulkCreate e ctx logs w) = None)]"
proof -
  obtain ls w1 where a: "assign_ids e t logs w = (ls, w1)"
    by (cases "assign_ids e t logs w") auto
  note p = assign_ids_props [OF a]
  have r: "repo_BulkCreate e ctx logs w = gorm_Create e ls w1"
    using assms a by (simp add: repo_BulkCreate_def)
  show ?thesis
    by (rule exI [of _ "map (apply_defaults e) ls"])
       (use p in \<open>simp add: r gorm_Create_rows gorm_Create_trace\<close>)
qed

lemma repo_BulkCreate_no_tenant:
  assumes "GetTenantIDFromContext ctx = Inl err"
  shows "repo_BulkCreate e ctx logs w = (Some err, logs, w)"
  using assms by (simp add: repo_BulkCreate_def)

lemma BulkCreate_rows:
  "rows (snd (BulkCreate e s ctx reqs w)) =
     rows (snd (snd (repo_BulkCreate e ctx (map ToAuditLog reqs) w)))"
  by (simp add: BulkCreate_def Let_def split: prod.splits option.splits)

lemma BulkCreate_result:
  "(fst (BulkCreate e s ctx reqs w) = None) =
     (fst (repo_BulkCreate e ctx (map ToAuditLog reqs) w) = None)"
  by (simp add: BulkCreate_def Let_def split: prod.splits option.splits)

text \<open>
  Claim C10. \<open>BulkCreate\<close> replaces the tenant of every log of the batch by the tenant
  of the caller's context before the insert: whatever the request bodies say, the rows it
  adds are as many as the requests and all carry the caller's tenant (and when the insert
  fails no row is added). Without a tenant in the context \<open>BulkCreate\<close> fails and leaves
  the world as it was.
\<close>

theorem BulkCreate_binds_tenant:
  "(\<forall>t. GetTenantIDFromContext ctx = Inr t \<longrightarrow>
      (\<exists>new. length new = length reqs \<and> (\<forall>l \<in> set new. TenantID l = t)
         \<and> rows (snd (BulkCreate e s ctx reqs w)) =
             (if fst (BulkCreate e s ctx reqs w) = None then rows w @ new else rows w)))
   \<and> (\<forall>err. GetTenantIDFromContext ctx = Inl err \<longrightarrow>
      BulkCreate e s ctx reqs w =
        (Some (Wrap ''failed to bulk store logs in PostgreSQL'' err), w))"
proof (intro conjI allI impI)
  fix t assume t: "GetTenantIDFromContext ctx = Inr t"
  from repo_BulkCreate_tenant [OF t, of "map ToAuditLog reqs" e w]
  show "\<exists>new. length new = length reqs \<and> (\<forall>l \<in> set new. TenantID l = t)
         \<and> rows (snd (BulkCreate e s ctx reqs w)) =
             (if fst (BulkCreate e s ctx reqs w) = None then rows w @ new else rows w)"
    by (auto simp: BulkCreate_rows BulkCreate_result)
next
  fix err assume "GetTenantIDFromContext ctx = Inl err"
  then show "BulkCreate e s ctx reqs w =
        (Some (Wrap ''failed to bulk store logs in PostgreSQL'' err), w)"
    by (simp add: BulkCreate_def Let_def repo_BulkCreate_no_tenant)
qed

lemma BulkCreate_sample_ok:
  "fst (BulkCreate env_up with_broadcaster (token_context ''t1'')
          [sample_request ''other'' 5, sample_request ''t2'' 6] world_empty) = None"
  by (simp add: BulkCreate_def repo_BulkCreate_def ToAuditLog_def sample_request_def
        world_empty_def fresh_id_def gorm_Create_def insert_ok_def env_up_def Let_def
        apply_defaults_def pk_def IsZero_def)

theorem BulkCreate_binds_tenant_witness:
  "GetTenantIDFromContext (token_context ''t1'') = Inr ''t1''
   \<and> map TenantID (rows (snd (BulkCreate env_up with_broadcaster (token_context ''t1'')
          [sample_request ''other'' 5, sample_request ''t2'' 6] world_empty))) = [''t1'', ''t1'']
   \<and> GetTenantIDFromContext background = Inl ErrNoClaimsInContext
   \<and> BulkCreate env_up with_broadcaster background [sample_request ''other'' 5] world_empty =
        (Some (Wrap ''failed to bulk store logs in PostgreSQL'' ErrNoClaimsInContext), world_empty)"
proof -
  have t: "GetTenantIDFromContext (token_context ''t1'') = Inr ''t1''"
    by simp
  have b: "GetTenantIDFromContext background = Inl ErrNoClaimsInContext"
    by (simp add: GetTenantIDFromContext_def background_def)
  from BulkCreate_binds_tenant [of "token_context ''t1''" "[sample_request ''other'' 5, sample_request ''t2'' 6]"
         env_up with_broadcaster world_empty] t
  have "\<exists>new. length new = length [sample_request ''other'' 5, sample_request ''t2'' 6]
          \<and> (\<forall>l \<in> set new. TenantID l = ''t1'')
          \<and> rows (snd (BulkCreate env_up with_broadcaster (token_context ''t1'')
                [sample_request ''other'' 5, sample_request ''t2'' 6] world_empty)) =
              (if fst (BulkCreate env_up with_broadcaster (token_context ''t1'')
                [sample_request ''other'' 5, sample_request ''t2'' 6] world_empty) = None
               then rows world_empty @ new else rows world_empty)"
    by blast
  then obtain new where n: "length new = length [sample_request ''other'' 5, sample_request ''t2'' 6]"
      "\<forall>l \<in> set new. TenantID l = ''t1''"
      "rows (snd (BulkCreate env_up with_broadcaster (token_context ''t1'')
          [sample_request ''other'' 5, sample_request ''t2'' 6] world_empty)) = rows world_empty @ new"
    unfolding BulkCreate_sample_ok by auto
  from n(1) obtain x y where xy: "new = [x, y]"
    by (cases new; cases "tl new") auto
  with n(2) have "map TenantID new = [''t1'', ''t1'']"
    by simp
  with n(3) have r: "map TenantID (rows (snd (BulkCreate env_up with_broadcaster (token_context ''t1'')
          [sample_request ''other'' 5, sample_request ''t2'' 6] world_empty))) = [''t1'', ''t1'']"
    by (simp add: world_empty_def)
  from BulkCreate_binds_tenant [of background "[sample_request ''other'' 5]" env_up with_broadcaster world_empty] b
  have f: "BulkCreate env_up with_broadcaster background [sample_request ''other'' 5] world_empty =
        (Some (Wrap ''failed to bulk store logs in PostgreSQL'' ErrNoClaimsInContext), world_empty)"
    by blast
  from t r b f show ?thesis by blast
qed

end
